theory Spec2Isabelle
  imports Complex_Main "HOL-Library.Word" "HOL-Library.Multiset"
begin

section \<open>Go strings\<close>

text \<open>
  A Go string is read here as the sequence of code points that UTF-8 decoding yields
  (\<^verbatim>\<open>strings.TrimSpace\<close> and \<^verbatim>\<open>strings.EqualFold\<close> work rune by rune, and
  splitting at the one-byte separator \<^verbatim>\<open>"\n"\<close> commutes with decoding). A rune is
  its code point number. A Go string may hold bytes that are not UTF-8: an element of a
  string that is no Unicode scalar value stands for such a byte (decoding reads it as one
  rune \<^verbatim>\<open>U+FFFD\<close>, which is no white space; the byte itself stays in the string).
\<close>

type_synonym rune = nat
type_synonym gostring = "rune list"

definition gostr :: "string \<Rightarrow> gostring" where
  "gostr s = map of_char s"

definition newline :: rune where
  "newline = 10"

definition space :: gostring where
  "space = [32]"

text \<open>
  \<^verbatim>\<open>unicode.IsSpace\<close>: in Latin-1 the runes \<^verbatim>\<open>\t \n \v \f \r\<close>, space, U+0085 and
  U+00A0; beyond Latin-1 the White_Space property (U+1680, U+2000..U+200A, U+2028,
  U+2029, U+202F, U+205F, U+3000).
\<close>

definition isSpace :: "rune \<Rightarrow> bool" where
  "isSpace r =
     (r = 9 \<or> r = 10 \<or> r = 11 \<or> r = 12 \<or> r = 13 \<or> r = 32 \<or> r = 133 \<or> r = 160 \<or>
      r = 5760 \<or> (8192 \<le> r \<and> r \<le> 8202) \<or> r = 8232 \<or> r = 8233 \<or> r = 8239 \<or>
      r = 8287 \<or> r = 12288)"

text \<open>
  Valid UTF-8, and the coercion to it that \<^verbatim>\<open>encoding/json\<close> applies to every string it
  writes and to every string it reads: each byte that does not decode becomes \<^verbatim>\<open>U+FFFD\<close>.
\<close>

definition isScalar :: "rune \<Rightarrow> bool" where
  "isScalar r = (r < 55296 \<or> (57344 \<le> r \<and> r \<le> 1114111))"

definition validUTF8 :: "gostring \<Rightarrow> bool" where
  "validUTF8 s = list_all isScalar s"

definition toValidUTF8 :: "gostring \<Rightarrow> gostring" where
  "toValidUTF8 s = map (\<lambda>r. if isScalar r then r else 65533) s"

text \<open>The element that stands for the byte \<open>b\<close> where it does not decode.\<close>

definition undecodable :: "nat \<Rightarrow> rune" where
  "undecodable b = 1114112 + b"

text \<open>\<^verbatim>\<open>strings.TrimSpace\<close>: leading white space is cut, then trailing white space.\<close>

definition TrimSpace :: "gostring \<Rightarrow> gostring" where
  "TrimSpace s = rev (dropWhile isSpace (rev (dropWhile isSpace s)))"

text \<open>
  \<^verbatim>\<open>strings.Split(s, sep)\<close> for a separator of one rune (the program only splits at
  \<^verbatim>\<open>"\n"\<close>): the pieces between the separators, so one piece more than there are
  separators and never an empty slice.
\<close>

fun Split :: "gostring \<Rightarrow> rune \<Rightarrow> gostring list" where
  "Split [] sep = [[]]"
| "Split (c # cs) sep =
     (if c = sep then [] # Split cs sep
      else (case Split cs sep of [] \<Rightarrow> [[c]] | l # ls \<Rightarrow> (c # l) # ls))"

text \<open>\<^verbatim>\<open>strings.Join(elems, sep)\<close>.\<close>

fun Join :: "gostring list \<Rightarrow> gostring \<Rightarrow> gostring" where
  "Join [] sep = []"
| "Join [x] sep = x"
| "Join (x # y # ys) sep = x @ sep @ Join (y # ys) sep"

section \<open>Package git: commit messages\<close>

text \<open>
  The loop of \<^verbatim>\<open>parseCommitMessage\<close> over \<^verbatim>\<open>lines[1:]\<close>: every line is trimmed and
  appended to \<^verbatim>\<open>descLines\<close> unless it is empty after trimming.
\<close>

function descLoop :: "gostring list \<Rightarrow> nat \<Rightarrow> gostring list \<Rightarrow> gostring list" where
  "descLoop lines i descLines =
     (if i < length lines
      then (let line = TrimSpace (lines ! i)
            in descLoop lines (i + 1) (if line \<noteq> [] then descLines @ [line] else descLines))
      else descLines)"
  by pat_completeness auto
termination
  by (relation "measure (\<lambda>(lines, i, descLines). length lines - i)") auto

declare descLoop.simps [simp del]

definition parseCommitMessage :: "gostring \<Rightarrow> gostring \<times> gostring" where
  "parseCommitMessage fullMessage =
     (let lines = Split (TrimSpace fullMessage) newline
      in if length lines = 0 then ([], [])
         else (let message = TrimSpace (lines ! 0);
                   description =
                     (if length lines > 1 then Join (descLoop lines 1 []) space else [])
               in (message, description)))"

text \<open>
  The specification sentence about message splitting, written from its words for
  comparison with \<^verbatim>\<open>parseCommitMessage\<close>. The first non-empty line of the message is the
  first of its lines that holds more than white space (a message of white space only has
  none); the specification takes this line as the title. The description joins the later
  lines that are not empty once trimmed. \<^verbatim>\<open>titleSpec\<close> is the amended title: the first
  non-empty line without the white space around it.
\<close>

definition firstNonEmptyLine :: "gostring \<Rightarrow> gostring" where
  "firstNonEmptyLine msg =
     (case dropWhile (\<lambda>l. TrimSpace l = []) (Split msg newline) of
        [] \<Rightarrow> []
      | l # rest \<Rightarrow> l)"

definition nonEmptyTrimmed :: "gostring list \<Rightarrow> gostring list" where
  "nonEmptyTrimmed ls = filter (\<lambda>l. l \<noteq> []) (map TrimSpace ls)"

definition titleSpec :: "gostring \<Rightarrow> gostring" where
  "titleSpec msg = TrimSpace (firstNonEmptyLine msg)"

definition descriptionSpec :: "gostring \<Rightarrow> gostring" where
  "descriptionSpec msg =
     (case dropWhile (\<lambda>l. TrimSpace l = []) (Split msg newline) of
        [] \<Rightarrow> []
      | l # rest \<Rightarrow> Join (filter (\<lambda>l. l \<noteq> []) (map TrimSpace rest)) space)"

section \<open>Package git: selecting commits\<close>

text \<open>
  A \<^verbatim>\<open>time.Time\<close> is the instant it denotes, in nanoseconds since the epoch (the unit
  of \<^verbatim>\<open>time.Duration\<close>): \<^verbatim>\<open>Before\<close> is \<open><\<close>, \<^verbatim>\<open>After\<close> is \<open>>\<close> and \<^verbatim>\<open>Add\<close> is
  \<open>+\<close> on instants.
\<close>

type_synonym time = int

definition Hour :: int where
  "Hour = 3600000000000"

text \<open>The commit of the program (\<^verbatim>\<open>git.Commit\<close>).\<close>

record Commit =
  SHA :: gostring
  Date :: time
  Message :: gostring
  Description :: gostring
  Author :: gostring
  AuthorEmail :: gostring

text \<open>
  The commit of the version-control library (\<^verbatim>\<open>object.Commit\<close>), with the fields the
  program reads: \<^verbatim>\<open>c.Hash.String()\<close> (40 hexadecimal digits), \<^verbatim>\<open>c.Author\<close> and
  \<^verbatim>\<open>c.Message\<close>.
\<close>

record Signature =
  Name :: gostring
  Email :: gostring
  When :: time

record ObjectCommit =
  objHash :: gostring
  objAuthor :: Signature
  objMessage :: gostring

text \<open>
  The repository as \<^verbatim>\<open>GetCommits\<close> sees it: \<^verbatim>\<open>Reference\<close> resolves a reference name
  to a hash or fails; \<^verbatim>\<open>Log\<close> fails, or gives the commits the iterator yields from that
  hash, in the library's order, and the error (if any) on which the iteration ends.
\<close>

record Repository =
  Reference :: "gostring \<Rightarrow> gostring + gostring"
  Log :: "gostring \<Rightarrow> gostring + (ObjectCommit list \<times> gostring option)"

datatype gitError =
    FailedBranchReference gostring gostring
  | FailedCommitLog gostring
  | FailedIterate gostring

text \<open>
  The callback of \<^verbatim>\<open>commitIter.ForEach\<close>: the slice \<^verbatim>\<open>commits\<close> it appends to is
  passed and returned. \<^verbatim>\<open>strings.EqualFold\<close> (equality under Unicode simple case
  folding) is the library's and a parameter here. The slice \<^verbatim>\<open>c.Hash.String()[:8]\<close> is
  always in range, the string having 40 digits.
\<close>

definition forEachCallback ::
  "(gostring \<Rightarrow> gostring \<Rightarrow> bool) \<Rightarrow> time \<Rightarrow> time \<Rightarrow> gostring \<Rightarrow> Commit list \<Rightarrow> ObjectCommit \<Rightarrow> Commit list" where
  "forEachCallback EqualFold fromDate toDate authorEmail commits c =
     (if When (objAuthor c) < fromDate \<or> When (objAuthor c) > toDate + 24 * Hour then commits
      else if \<not> EqualFold (Email (objAuthor c)) authorEmail then commits
      else (let (message, description) = parseCommitMessage (objMessage c);
                commit = \<lparr>SHA = take 8 (objHash c), Date = When (objAuthor c),
                           Message = message, Description = description,
                           Author = Name (objAuthor c), AuthorEmail = Email (objAuthor c)\<rparr>
            in commits @ [commit]))"

text \<open>
  The sort at the end of \<^verbatim>\<open>GetCommits\<close>: for every \<^verbatim>\<open>i\<close> the inner loop runs \<^verbatim>\<open>j\<close>
  from \<^verbatim>\<open>i + 1\<close> to the end and swaps \<^verbatim>\<open>commits[i]\<close> and \<^verbatim>\<open>commits[j]\<close> when the
  first is older. The bound \<^verbatim>\<open>i < len(commits)-1\<close> is over Go's signed integers.
\<close>

function innerLoop :: "nat \<Rightarrow> nat \<Rightarrow> Commit list \<Rightarrow> Commit list" where
  "innerLoop i j commits =
     (if j < length commits
      then innerLoop i (j + 1)
             (if Date (commits ! i) < Date (commits ! j)
              then commits[i := commits ! j, j := commits ! i]
              else commits)
      else commits)"
  by pat_completeness auto
termination
  by (relation "measure (\<lambda>(i, j, commits). length commits - j)") auto

declare innerLoop.simps [simp del]

lemma length_innerLoop: "length (innerLoop i j commits) = length commits"
proof (induction i j commits rule: innerLoop.induct)
  case (1 i j commits)
  show ?case
  proof (cases "j < length commits")
    case True
    with 1 show ?thesis
      by (subst innerLoop.simps) (simp split: if_splits)
  next
    case False
    then show ?thesis
      by (subst innerLoop.simps) simp
  qed
qed

function outerLoop :: "nat \<Rightarrow> Commit list \<Rightarrow> Commit list" where
  "outerLoop i commits =
     (if int i < int (length commits) - 1
      then outerLoop (i + 1) (innerLoop i (i + 1) commits)
      else commits)"
  by pat_completeness auto
termination
  by (relation "measure (\<lambda>(i, commits). length commits - i)")
     (auto simp: length_innerLoop)

declare outerLoop.simps [simp del]

definition GetCommits ::
  "(gostring \<Rightarrow> gostring \<Rightarrow> bool) \<Rightarrow> Repository \<Rightarrow> time \<Rightarrow> time \<Rightarrow> gostring \<Rightarrow> gostring
     \<Rightarrow> gitError + Commit list" where
  "GetCommits EqualFold repo fromDate toDate authorEmail branchName =
     (case Reference repo (gostr ''refs/heads/'' @ branchName) of
        Inl err \<Rightarrow> Inl (FailedBranchReference branchName err)
      | Inr hash \<Rightarrow>
          (case Log repo hash of
             Inl err \<Rightarrow> Inl (FailedCommitLog err)
           | Inr (yielded, iterErr) \<Rightarrow>
               (let commits = foldl (forEachCallback EqualFold fromDate toDate authorEmail) [] yielded
                in case iterErr of
                     Some err \<Rightarrow> Inl (FailedIterate err)
                   | None \<Rightarrow> Inr (outerLoop 0 commits))))"

text \<open>
  The filter the specification states (exclusive upper bound at midnight after
  \<^verbatim>\<open>toDate\<close>), written from its words for comparison with \<^verbatim>\<open>forEachCallback\<close>.
\<close>

definition keepSpec :: "(gostring \<Rightarrow> gostring \<Rightarrow> bool) \<Rightarrow> time \<Rightarrow> time \<Rightarrow> gostring \<Rightarrow> ObjectCommit \<Rightarrow> bool" where
  "keepSpec EqualFold fromDate toDate authorEmail c =
     (fromDate \<le> When (objAuthor c) \<and> When (objAuthor c) < toDate + 24 * Hour \<and>
      EqualFold (Email (objAuthor c)) authorEmail)"

text \<open>
  \<^verbatim>\<open>strings.EqualFold\<close> on ASCII strings, where simple folding only pairs \<^verbatim>\<open>A..Z\<close> with
  \<^verbatim>\<open>a..z\<close>; it instantiates the parameter in the examples.
\<close>

definition asciiLower :: "rune \<Rightarrow> rune" where
  "asciiLower r = (if 65 \<le> r \<and> r \<le> 90 then r + 32 else r)"

definition asciiEqualFold :: "gostring \<Rightarrow> gostring \<Rightarrow> bool" where
  "asciiEqualFold s t = (map asciiLower s = map asciiLower t)"

text \<open>The order the specification asks of the result: newest first.\<close>

definition newerFirst :: "Commit \<Rightarrow> Commit \<Rightarrow> bool" where
  "newerFirst a b = (Date b \<le> Date a)"

text \<open>
  The invariants of the two loops: before round \<^verbatim>\<open>i\<close> of the outer loop every position
  below \<^verbatim>\<open>i\<close> holds a commit at least as new as all later ones; inside round \<^verbatim>\<open>i\<close>,
  position \<^verbatim>\<open>i\<close> holds a commit at least as new as those between \<^verbatim>\<open>i\<close> and \<^verbatim>\<open>j\<close>.
\<close>

definition prefixDone :: "nat \<Rightarrow> Commit list \<Rightarrow> bool" where
  "prefixDone i cs =
     (\<forall>a b. a < i \<and> a < b \<and> b < length cs \<longrightarrow> Date (cs ! b) \<le> Date (cs ! a))"

definition maxSoFar :: "nat \<Rightarrow> nat \<Rightarrow> Commit list \<Rightarrow> bool" where
  "maxSoFar i j cs =
     (\<forall>k. i < k \<and> k < j \<and> k < length cs \<longrightarrow> Date (cs ! k) \<le> Date (cs ! i))"

text \<open>
  Example data: the range 2024-01-01 to 2024-01-31 (midnights, UTC), and commits of
  \<^verbatim>\<open>dev@example.com\<close> at 2024-01-10T00:00:00, 2024-01-31T23:59:00 and
  2024-02-01T00:00:00 (the midnight that ends the last day of the range).
\<close>

definition jan01 :: time where
  "jan01 = 1704067200 * 1000000000"

definition jan31 :: time where
  "jan31 = 1706659200 * 1000000000"

definition objectCommit :: "string \<Rightarrow> string \<Rightarrow> time \<Rightarrow> string \<Rightarrow> ObjectCommit" where
  "objectCommit h email t msg =
     \<lparr>objHash = gostr h,
      objAuthor = \<lparr>Name = gostr ''Dev'', Email = gostr email, When = t\<rparr>,
      objMessage = gostr msg\<rparr>"

definition commitJan10 :: ObjectCommit where
  "commitJan10 =
     objectCommit ''1111111111111111111111111111111111111111'' ''dev@example.com''
       (1704844800 * 1000000000) ''First''"

definition commitJan31 :: ObjectCommit where
  "commitJan31 =
     objectCommit ''2222222222222222222222222222222222222222'' ''Dev@Example.com''
       (1706745540 * 1000000000) ''Second\<newline>\<newline>more''"

definition commitFeb01 :: ObjectCommit where
  "commitFeb01 =
     objectCommit ''3333333333333333333333333333333333333333'' ''dev@example.com''
       (1706745600 * 1000000000) ''Third''"

definition repoOf :: "ObjectCommit list \<Rightarrow> Repository" where
  "repoOf yielded =
     \<lparr>Reference = (\<lambda>name. if name = gostr ''refs/heads/main'' then Inr (gostr ''head'')
                              else Inl (gostr ''reference not found'')),
      Log = (\<lambda>hash. Inr (yielded, None))\<rparr>"

section \<open>Package config\<close>

text \<open>
  A \<^verbatim>\<open>float64\<close> is the number it denotes, or one of the three values that denote
  none; \<^verbatim>\<open>Fin q\<close> stands for the float whose exact value is \<open>q\<close>. Comparison with zero
  is all the program computes on floats: it is false on \<^verbatim>\<open>NaN\<close>. Go's \<^verbatim>\<open>int\<close> is a
  64-bit signed integer.
\<close>

datatype float64 = Fin rat | PosInf | NegInf | NaN

fun leZero :: "float64 \<Rightarrow> bool" where
  "leZero (Fin q) = (q \<le> 0)"
| "leZero NegInf = True"
| "leZero PosInf = False"
| "leZero NaN = False"

fun ltZero :: "float64 \<Rightarrow> bool" where
  "ltZero (Fin q) = (q < 0)"
| "ltZero NegInf = True"
| "ltZero PosInf = False"
| "ltZero NaN = False"

type_synonym goint = "64 word"

record HeaderConfig =
  Template :: gostring
  ExecutorName :: gostring
  ExecutorEmail :: gostring
  RecipientName :: gostring
  Location :: gostring

record PDFConfig =
  MarginTop :: float64
  MarginBottom :: float64
  MarginLeft :: float64
  MarginRight :: float64
  FontFamily :: gostring
  FontSize :: float64
  HeaderColor :: "goint \<times> goint \<times> goint"
  ContentColor :: "goint \<times> goint \<times> goint"

record Config =
  Header :: HeaderConfig
  PDF :: PDFConfig

text \<open>
  The default template, line by line; the letters outside ASCII are given by their
  code points (U+00F3, U+0142).
\<close>

definition defaultTemplate :: gostring where
  "defaultTemplate =
     gostr ''Some City, {{.date_from}} - {{.date_to}}\<newline>'' @
     gostr ''Protok'' @ [243, 322] @ gostr '' odbioru prac programistycznych\<newline>'' @
     gostr ''\<newline>'' @
     gostr ''Wykonawca: {{.executor_name}} ({{.executor_email}})\<newline>'' @
     gostr ''Odbiorca: {{.recipient_name}}\<newline>'' @
     gostr ''\<newline>'' @
     gostr ''Repozytorium: {{.repository_name}}\<newline>'' @
     gostr ''- Branch {{.branch_name}}\<newline>'' @
     gostr ''\<newline>'' @
     gostr ''Lista commit'' @ [243] @ gostr ''w:''"

definition DefaultConfig :: Config where
  "DefaultConfig =
     \<lparr>Header =
        \<lparr>Template = defaultTemplate,
         ExecutorName = gostr ''Some Programmer'',
         ExecutorEmail = gostr ''jan.kowalski@comany.com'',
         RecipientName = gostr ''CIA'',
         Location = gostr ''Warsaw''\<rparr>,
      PDF =
        \<lparr>MarginTop = Fin 20, MarginBottom = Fin 20, MarginLeft = Fin 20, MarginRight = Fin 20,
         FontFamily = gostr ''Arial'', FontSize = Fin 10,
         HeaderColor = (0, 0, 0), ContentColor = (50, 50, 50)\<rparr>\<rparr>"

text \<open>The zero value of \<^verbatim>\<open>Config\<close>, which \<^verbatim>\<open>var config Config\<close> declares.\<close>

definition zeroConfig :: Config where
  "zeroConfig =
     \<lparr>Header =
        \<lparr>Template = [], ExecutorName = [], ExecutorEmail = [], RecipientName = [],
         Location = []\<rparr>,
      PDF =
        \<lparr>MarginTop = Fin 0, MarginBottom = Fin 0, MarginLeft = Fin 0, MarginRight = Fin 0,
         FontFamily = [], FontSize = Fin 0,
         HeaderColor = (0, 0, 0), ContentColor = (0, 0, 0)\<rparr>\<rparr>"

text \<open>\<^verbatim>\<open>Validate\<close>: the error it returns, \<^verbatim>\<open>None\<close> for \<^verbatim>\<open>nil\<close>.\<close>

datatype validationError =
    TemplateEmpty
  | FontSizeNotPositive
  | MarginsNegative

definition Validate :: "Config \<Rightarrow> validationError option" where
  "Validate c =
     (if Template (Header c) = [] then Some TemplateEmpty
      else if leZero (FontSize (PDF c)) then Some FontSizeNotPositive
      else if ltZero (MarginTop (PDF c)) \<or> ltZero (MarginBottom (PDF c)) \<or>
              ltZero (MarginLeft (PDF c)) \<or> ltZero (MarginRight (PDF c))
      then Some MarginsNegative
      else None)"

text \<open>
  All the violations of a configuration, in the order \<^verbatim>\<open>Validate\<close> checks them: what an
  aggregated error would have to cover.
\<close>

definition violations :: "Config \<Rightarrow> validationError list" where
  "violations c =
     (if Template (Header c) = [] then [TemplateEmpty] else []) @
     (if leZero (FontSize (PDF c)) then [FontSizeNotPositive] else []) @
     (if ltZero (MarginTop (PDF c)) \<or> ltZero (MarginBottom (PDF c)) \<or>
         ltZero (MarginLeft (PDF c)) \<or> ltZero (MarginRight (PDF c))
      then [MarginsNegative] else [])"

text \<open>
  JSON documents. A file that holds JSON is modelled by the value its text denotes;
  \<^verbatim>\<open>encoding/json\<close> prints a value and reads it back as the same value. A number
  literal is \<^verbatim>\<open>IntLit n\<close> when it is written as a plain integer and \<^verbatim>\<open>FracLit q\<close> when
  it has a fraction or an exponent, \<open>n\<close> and \<open>q\<close> being the number the digits denote:
  only the first kind decodes into a Go \<^verbatim>\<open>int\<close>. A string literal holds the string as the
  text has it, before the coercion to valid UTF-8. An object keeps its members in the
  order of the text.
\<close>

datatype number = IntLit int | FracLit rat

datatype json =
    JNull
  | JBool bool
  | JNumber number
  | JString gostring
  | JArray "json list"
  | JObject "(gostring \<times> json) list"

datatype jsonError =
    SyntaxError
  | UnmarshalTypeError gostring
  | UnsupportedValue

definition andThen :: "'e + 'a \<Rightarrow> ('a \<Rightarrow> 'e + 'b) \<Rightarrow> 'e + 'b" where
  "andThen r f = (case r of Inl e \<Rightarrow> Inl e | Inr x \<Rightarrow> f x)"

text \<open>
  \<^verbatim>\<open>json.Unmarshal\<close> into the fields of \<^verbatim>\<open>Config\<close>. Each decoder takes the value the
  field holds already: \<^verbatim>\<open>null\<close> leaves it, a value of the wrong kind is an
  \<^verbatim>\<open>UnmarshalTypeError\<close> (the decoder goes on and reports the first such error at the
  end; \<^verbatim>\<open>Load\<close> then drops the configuration, so the model stops at the first). A
  string is coerced to valid UTF-8. A number decodes into a \<^verbatim>\<open>float64\<close> through
  \<^verbatim>\<open>strconv.ParseFloat\<close>, which rounds the literal to the nearest float or fails when it
  is out of range; it is the library's and a parameter here (\<^verbatim>\<open>None\<close> for its error).
\<close>

definition decodeString :: "json \<Rightarrow> gostring \<Rightarrow> jsonError + gostring" where
  "decodeString v old =
     (case v of
        JString s \<Rightarrow> Inr (toValidUTF8 s)
      | JNull \<Rightarrow> Inr old
      | _ \<Rightarrow> Inl (UnmarshalTypeError (gostr ''string'')))"

definition decodeFloat64 ::
  "(number \<Rightarrow> float64 option) \<Rightarrow> json \<Rightarrow> float64 \<Rightarrow> jsonError + float64" where
  "decodeFloat64 parseFloat v old =
     (case v of
        JNumber lit \<Rightarrow>
          (case parseFloat lit of
             Some x \<Rightarrow> Inr x
           | None \<Rightarrow> Inl (UnmarshalTypeError (gostr ''float64'')))
      | JNull \<Rightarrow> Inr old
      | _ \<Rightarrow> Inl (UnmarshalTypeError (gostr ''float64'')))"

definition decodeInt :: "json \<Rightarrow> goint \<Rightarrow> jsonError + goint" where
  "decodeInt v old =
     (case v of
        JNumber (IntLit n) \<Rightarrow>
          (if - (2 ^ 63) \<le> n \<and> n < 2 ^ 63 then Inr (word_of_int n)
           else Inl (UnmarshalTypeError (gostr ''int'')))
      | JNull \<Rightarrow> Inr old
      | _ \<Rightarrow> Inl (UnmarshalTypeError (gostr ''int'')))"

text \<open>
  A JSON array into a \<^verbatim>\<open>[3]int\<close>: the first three elements are decoded in order, further
  ones are skipped, and the places the array does not reach are set to zero.
\<close>

definition decodeElem :: "json list \<Rightarrow> nat \<Rightarrow> goint \<Rightarrow> jsonError + goint" where
  "decodeElem vs i old = (if i < length vs then decodeInt (vs ! i) old else Inr 0)"

definition decodeColor :: "json \<Rightarrow> goint \<times> goint \<times> goint \<Rightarrow> jsonError + goint \<times> goint \<times> goint" where
  "decodeColor v old =
     (case v of
        JArray vs \<Rightarrow>
          (case old of (r, g, b) \<Rightarrow>
             andThen (decodeElem vs 0 r) (\<lambda>r'.
             andThen (decodeElem vs 1 g) (\<lambda>g'.
             andThen (decodeElem vs 2 b) (\<lambda>b'. Inr (r', g', b')))))
      | JNull \<Rightarrow> Inr old
      | _ \<Rightarrow> Inl (UnmarshalTypeError (gostr ''[3]int'')))"

text \<open>
  The field a key of a JSON object names: the field whose tag is the key, else the first
  field whose tag matches it without regard to case (\<^verbatim>\<open>foldEq\<close>, the library's
  comparison, is a parameter); a key that names no field is skipped.
\<close>

definition findField :: "(gostring \<Rightarrow> gostring \<Rightarrow> bool) \<Rightarrow> gostring list \<Rightarrow> gostring \<Rightarrow> gostring option" where
  "findField foldEq tags key =
     (if key \<in> set tags then Some key else find (\<lambda>tag. foldEq tag key) tags)"

fun decodeMembers ::
  "(gostring \<times> json \<Rightarrow> 's \<Rightarrow> jsonError + 's) \<Rightarrow> (gostring \<times> json) list \<Rightarrow> 's \<Rightarrow> jsonError + 's" where
  "decodeMembers f [] s = Inr s"
| "decodeMembers f (kv # kvs) s =
     (case f kv s of Inl e \<Rightarrow> Inl e | Inr s' \<Rightarrow> decodeMembers f kvs s')"

definition headerTags :: "gostring list" where
  "headerTags =
     [gostr ''template'', gostr ''executor_name'', gostr ''executor_email'',
      gostr ''recipient_name'', gostr ''location'']"

definition decodeHeaderMember ::
  "(gostring \<Rightarrow> gostring \<Rightarrow> bool) \<Rightarrow> gostring \<times> json \<Rightarrow> HeaderConfig \<Rightarrow> jsonError + HeaderConfig" where
  "decodeHeaderMember foldEq kv h =
     (case findField foldEq headerTags (fst kv) of
        None \<Rightarrow> Inr h
      | Some tag \<Rightarrow>
          if tag = gostr ''template''
          then andThen (decodeString (snd kv) (Template h)) (\<lambda>s. Inr (h\<lparr>Template := s\<rparr>))
          else if tag = gostr ''executor_name''
          then andThen (decodeString (snd kv) (ExecutorName h)) (\<lambda>s. Inr (h\<lparr>ExecutorName := s\<rparr>))
          else if tag = gostr ''executor_email''
          then andThen (decodeString (snd kv) (ExecutorEmail h)) (\<lambda>s. Inr (h\<lparr>ExecutorEmail := s\<rparr>))
          else if tag = gostr ''recipient_name''
          then andThen (decodeString (snd kv) (RecipientName h)) (\<lambda>s. Inr (h\<lparr>RecipientName := s\<rparr>))
          else andThen (decodeString (snd kv) (Location h)) (\<lambda>s. Inr (h\<lparr>Location := s\<rparr>)))"

definition decodeHeader ::
  "(gostring \<Rightarrow> gostring \<Rightarrow> bool) \<Rightarrow> json \<Rightarrow> HeaderConfig \<Rightarrow> jsonError + HeaderConfig" where
  "decodeHeader foldEq v h =
     (case v of
        JObject kvs \<Rightarrow> decodeMembers (decodeHeaderMember foldEq) kvs h
      | JNull \<Rightarrow> Inr h
      | _ \<Rightarrow> Inl (UnmarshalTypeError (gostr ''config.HeaderConfig'')))"

definition pdfTags :: "gostring list" where
  "pdfTags =
     [gostr ''margin_top'', gostr ''margin_bottom'', gostr ''margin_left'',
      gostr ''margin_right'', gostr ''font_family'', gostr ''font_size'',
      gostr ''header_color'', gostr ''content_color'']"

definition decodePDFMember ::
  "(number \<Rightarrow> float64 option) \<Rightarrow> (gostring \<Rightarrow> gostring \<Rightarrow> bool) \<Rightarrow> gostring \<times> json \<Rightarrow> PDFConfig
     \<Rightarrow> jsonError + PDFConfig" where
  "decodePDFMember parseFloat foldEq kv p =
     (case findField foldEq pdfTags (fst kv) of
        None \<Rightarrow> Inr p
      | Some tag \<Rightarrow>
          if tag = gostr ''margin_top''
          then andThen (decodeFloat64 parseFloat (snd kv) (MarginTop p)) (\<lambda>x. Inr (p\<lparr>MarginTop := x\<rparr>))
          else if tag = gostr ''margin_bottom''
          then andThen (decodeFloat64 parseFloat (snd kv) (MarginBottom p)) (\<lambda>x. Inr (p\<lparr>MarginBottom := x\<rparr>))
          else if tag = gostr ''margin_left''
          then andThen (decodeFloat64 parseFloat (snd kv) (MarginLeft p)) (\<lambda>x. Inr (p\<lparr>MarginLeft := x\<rparr>))
          else if tag = gostr ''margin_right''
          then andThen (decodeFloat64 parseFloat (snd kv) (MarginRight p)) (\<lambda>x. Inr (p\<lparr>MarginRight := x\<rparr>))
          else if tag = gostr ''font_family''
          then andThen (decodeString (snd kv) (FontFamily p)) (\<lambda>s. Inr (p\<lparr>FontFamily := s\<rparr>))
          else if tag = gostr ''font_size''
          then andThen (decodeFloat64 parseFloat (snd kv) (FontSize p)) (\<lambda>x. Inr (p\<lparr>FontSize := x\<rparr>))
          else if tag = gostr ''header_color''
          then andThen (decodeColor (snd kv) (HeaderColor p)) (\<lambda>x. Inr (p\<lparr>HeaderColor := x\<rparr>))
          else andThen (decodeColor (snd kv) (ContentColor p)) (\<lambda>x. Inr (p\<lparr>ContentColor := x\<rparr>)))"

definition decodePDF ::
  "(number \<Rightarrow> float64 option) \<Rightarrow> (gostring \<Rightarrow> gostring \<Rightarrow> bool) \<Rightarrow> json \<Rightarrow> PDFConfig
     \<Rightarrow> jsonError + PDFConfig" where
  "decodePDF parseFloat foldEq v p =
     (case v of
        JObject kvs \<Rightarrow> decodeMembers (decodePDFMember parseFloat foldEq) kvs p
      | JNull \<Rightarrow> Inr p
      | _ \<Rightarrow> Inl (UnmarshalTypeError (gostr ''config.PDFConfig'')))"

definition configTags :: "gostring list" where
  "configTags = [gostr ''header'', gostr ''pdf'']"

definition decodeConfigMember ::
  "(number \<Rightarrow> float64 option) \<Rightarrow> (gostring \<Rightarrow> gostring \<Rightarrow> bool) \<Rightarrow> gostring \<times> json \<Rightarrow> Config
     \<Rightarrow> jsonError + Config" where
  "decodeConfigMember parseFloat foldEq kv c =
     (case findField foldEq configTags (fst kv) of
        None \<Rightarrow> Inr c
      | Some tag \<Rightarrow>
          if tag = gostr ''header''
          then andThen (decodeHeader foldEq (snd kv) (Header c)) (\<lambda>h. Inr (c\<lparr>Header := h\<rparr>))
          else andThen (decodePDF parseFloat foldEq (snd kv) (PDF c)) (\<lambda>p. Inr (c\<lparr>PDF := p\<rparr>)))"

definition Unmarshal ::
  "(number \<Rightarrow> float64 option) \<Rightarrow> (gostring \<Rightarrow> gostring \<Rightarrow> bool) \<Rightarrow> json \<Rightarrow> Config
     \<Rightarrow> jsonError + Config" where
  "Unmarshal parseFloat foldEq v c =
     (case v of
        JObject kvs \<Rightarrow> decodeMembers (decodeConfigMember parseFloat foldEq) kvs c
      | JNull \<Rightarrow> Inr c
      | _ \<Rightarrow> Inl (UnmarshalTypeError (gostr ''config.Config'')))"

text \<open>
  \<^verbatim>\<open>json.MarshalIndent\<close> of a \<^verbatim>\<open>Config\<close>: every field under its tag, in the order of the
  declaration. A string is written coerced to valid UTF-8. A float that is not a number
  is an \<^verbatim>\<open>UnsupportedValueError\<close>; a float that is one is written with the digits
  \<^verbatim>\<open>strconv\<close> chooses for it (the shortest decimal that reads back as the same float,
  without fraction or exponent when that is an integer below \<^verbatim>\<open>1e21\<close> in magnitude),
  the library's choice and a parameter here. An \<^verbatim>\<open>int\<close> is written as the plain integer
  it is.
\<close>

definition marshalFloat64 :: "(rat \<Rightarrow> number) \<Rightarrow> float64 \<Rightarrow> jsonError + json" where
  "marshalFloat64 formatFloat x =
     (case x of
        Fin q \<Rightarrow> Inr (JNumber (formatFloat q))
      | _ \<Rightarrow> Inl UnsupportedValue)"

definition marshalColor :: "goint \<times> goint \<times> goint \<Rightarrow> json" where
  "marshalColor col =
     (case col of
        (r, g, b) \<Rightarrow>
          JArray [JNumber (IntLit (sint r)), JNumber (IntLit (sint g)), JNumber (IntLit (sint b))])"

definition marshalHeader :: "HeaderConfig \<Rightarrow> json" where
  "marshalHeader h =
     JObject
       [(gostr ''template'', JString (toValidUTF8 (Template h))),
        (gostr ''executor_name'', JString (toValidUTF8 (ExecutorName h))),
        (gostr ''executor_email'', JString (toValidUTF8 (ExecutorEmail h))),
        (gostr ''recipient_name'', JString (toValidUTF8 (RecipientName h))),
        (gostr ''location'', JString (toValidUTF8 (Location h)))]"

definition marshalPDF :: "(rat \<Rightarrow> number) \<Rightarrow> PDFConfig \<Rightarrow> jsonError + json" where
  "marshalPDF formatFloat p =
     andThen (marshalFloat64 formatFloat (MarginTop p)) (\<lambda>mt.
     andThen (marshalFloat64 formatFloat (MarginBottom p)) (\<lambda>mb.
     andThen (marshalFloat64 formatFloat (MarginLeft p)) (\<lambda>ml.
     andThen (marshalFloat64 formatFloat (MarginRight p)) (\<lambda>mr.
     andThen (marshalFloat64 formatFloat (FontSize p)) (\<lambda>fs.
       Inr (JObject
         [(gostr ''margin_top'', mt),
          (gostr ''margin_bottom'', mb),
          (gostr ''margin_left'', ml),
          (gostr ''margin_right'', mr),
          (gostr ''font_family'', JString (toValidUTF8 (FontFamily p))),
          (gostr ''font_size'', fs),
          (gostr ''header_color'', marshalColor (HeaderColor p)),
          (gostr ''content_color'', marshalColor (ContentColor p))]))))))"

definition MarshalIndent :: "(rat \<Rightarrow> number) \<Rightarrow> Config \<Rightarrow> jsonError + json" where
  "MarshalIndent formatFloat c =
     andThen (marshalPDF formatFloat (PDF c)) (\<lambda>p.
       Inr (JObject [(gostr ''header'', marshalHeader (Header c)), (gostr ''pdf'', p)]))"

text \<open>
  The calls the program makes on the document of the page-layout library
  (\<^verbatim>\<open>gofpdf.Fpdf\<close>), with their arguments; the numeric arguments of the program are all
  whole numbers. The document being built is the sequence of the calls made so far.
\<close>

datatype pdfCall =
    New gostring gostring gostring gostring
  | AddUTF8Font gostring gostring gostring
  | SetFont gostring gostring int
  | AddPage
  | SetMargins int int int
  | SetAutoPageBreak bool int
  | Cell int int gostring
  | Ln int
  | MultiCell int int gostring gostring gostring bool
  | SetFillColor int int int
  | CellFormat int int gostring gostring int gostring bool int gostring
  | SetTextColor int int int

text \<open>
  The operating system and the standard library as the program sees them: the regular
  files and what they hold, which calls fail, the path functions of \<^verbatim>\<open>path/filepath\<close>,
  the path of the executable, the clock, the two layouts of \<^verbatim>\<open>Time.Format\<close> the program
  uses (\<^verbatim>\<open>2006-01-02\<close> and \<^verbatim>\<open>2006-01-02 15:04:05\<close>), the error, if any, with which
  \<^verbatim>\<open>OutputFileAndClose\<close> ends for a path and a document, and the two conversions of
  \<^verbatim>\<open>strconv\<close> between floats and number literals. \<^verbatim>\<open>Format\<close> prints a time in the zone
  the value carries: the date of a commit is printed in the zone of its author time,
  which the model of \<^verbatim>\<open>Commit\<close> does not hold, so \<^verbatim>\<open>FormatCommitDate\<close> takes the commit
  (\<^verbatim>\<open>FormatDate\<close> prints the two dates of the range, which the command line makes in
  UTC).
  A file holds a JSON text or something else.
\<close>

datatype filedata = JSONText json | OtherText

record System =
  files :: "gostring \<Rightarrow> filedata option"
  MkdirAllFails :: "gostring \<Rightarrow> bool"
  WriteFileFails :: "gostring \<Rightarrow> bool"
  ReadFileFails :: "gostring \<Rightarrow> bool"
  Dir :: "gostring \<Rightarrow> gostring"
  PathJoin :: "gostring \<Rightarrow> gostring \<Rightarrow> gostring"
  Abs :: "gostring \<Rightarrow> gostring + gostring"
  Executable :: "gostring + gostring"
  Now :: time
  FormatDate :: "time \<Rightarrow> gostring"
  FormatDateTime :: "time \<Rightarrow> gostring"
  OutputFileError :: "gostring \<Rightarrow> pdfCall list \<Rightarrow> gostring option"
  FormatCommitDate :: "Commit \<Rightarrow> gostring"
  FormatFloat :: "rat \<Rightarrow> number"
  ParseFloat :: "number \<Rightarrow> float64 option"

datatype configError =
    ConfigNotFound gostring
  | ReadFailed
  | ParseFailed jsonError
  | InvalidConfiguration validationError
  | CreateDirFailed
  | MarshalFailed jsonError
  | WriteFailed

definition Load :: "System \<Rightarrow> (gostring \<Rightarrow> gostring \<Rightarrow> bool) \<Rightarrow> gostring \<Rightarrow> configError + Config" where
  "Load sys foldEq configPath =
     (if configPath = [] then Inr DefaultConfig
      else (case files sys configPath of
              None \<Rightarrow> Inl (ConfigNotFound configPath)
            | Some data \<Rightarrow>
                if ReadFileFails sys configPath then Inl ReadFailed
                else (case data of
                        OtherText \<Rightarrow> Inl (ParseFailed SyntaxError)
                      | JSONText v \<Rightarrow>
                          (case Unmarshal (ParseFloat sys) foldEq v zeroConfig of
                             Inl e \<Rightarrow> Inl (ParseFailed e)
                           | Inr config \<Rightarrow>
                               (case Validate config of
                                  Some e \<Rightarrow> Inl (InvalidConfiguration e)
                                | None \<Rightarrow> Inr config)))))"

text \<open>\<^verbatim>\<open>Save\<close> returns the error, or the system with the file written.\<close>

definition Save :: "System \<Rightarrow> Config \<Rightarrow> gostring \<Rightarrow> configError + System" where
  "Save sys c configPath =
     (if MkdirAllFails sys (Dir sys configPath) then Inl CreateDirFailed
      else (case MarshalIndent (FormatFloat sys) c of
              Inl e \<Rightarrow> Inl (MarshalFailed e)
            | Inr data \<Rightarrow>
                if WriteFileFails sys configPath then Inl WriteFailed
                else Inr (sys\<lparr>files := (files sys)(configPath \<mapsto> JSONText data)\<rparr>)))"

text \<open>
  A configuration all of whose margins and whose font size are numbers; one all of whose
  strings are valid UTF-8; and one each of whose margins and whose font size, written by
  \<^verbatim>\<open>FormatFloat\<close>, is read back by \<^verbatim>\<open>ParseFloat\<close> as the same float (what \<^verbatim>\<open>strconv\<close>
  promises of the shortest decimal of every float).
\<close>

fun isFin :: "float64 \<Rightarrow> bool" where
  "isFin (Fin q) = True"
| "isFin PosInf = False"
| "isFin NegInf = False"
| "isFin NaN = False"

definition finiteConfig :: "Config \<Rightarrow> bool" where
  "finiteConfig c =
     (isFin (MarginTop (PDF c)) \<and> isFin (MarginBottom (PDF c)) \<and> isFin (MarginLeft (PDF c)) \<and>
      isFin (MarginRight (PDF c)) \<and> isFin (FontSize (PDF c)))"

definition validStrings :: "Config \<Rightarrow> bool" where
  "validStrings c =
     (validUTF8 (Template (Header c)) \<and> validUTF8 (ExecutorName (Header c)) \<and>
      validUTF8 (ExecutorEmail (Header c)) \<and> validUTF8 (RecipientName (Header c)) \<and>
      validUTF8 (Location (Header c)) \<and> validUTF8 (FontFamily (PDF c)))"

fun readsBack :: "System \<Rightarrow> float64 \<Rightarrow> bool" where
  "readsBack sys (Fin q) = (ParseFloat sys (FormatFloat sys q) = Some (Fin q))"
| "readsBack sys PosInf = True"
| "readsBack sys NegInf = True"
| "readsBack sys NaN = True"

definition floatsReadBack :: "System \<Rightarrow> Config \<Rightarrow> bool" where
  "floatsReadBack sys c =
     (readsBack sys (MarginTop (PDF c)) \<and> readsBack sys (MarginBottom (PDF c)) \<and>
      readsBack sys (MarginLeft (PDF c)) \<and> readsBack sys (MarginRight (PDF c)) \<and>
      readsBack sys (FontSize (PDF c)))"

section \<open>Formatting of numbers and dates\<close>

text \<open>\<^verbatim>\<open>%d\<close> of a length: the decimal digits.\<close>

fun decimal :: "nat \<Rightarrow> gostring" where
  "decimal n = (if n < 10 then [48 + n] else decimal (n div 10) @ [48 + n mod 10])"

declare decimal.simps [simp del]

text \<open>
  The two layouts for instants in UTC, which the example system uses: the civil date of
  a day number, and the time of day.
\<close>

definition pad2 :: "nat \<Rightarrow> gostring" where
  "pad2 n = (if n < 10 then [48] else []) @ decimal n"

definition pad4 :: "nat \<Rightarrow> gostring" where
  "pad4 n =
     (if n < 10 then [48, 48, 48] else if n < 100 then [48, 48] else if n < 1000 then [48] else [])
     @ decimal n"

definition dayOfEra :: "int \<Rightarrow> int" where
  "dayOfEra z = z - (z div 146097) * 146097"

definition yearOfEra :: "int \<Rightarrow> int" where
  "yearOfEra doe = (doe - doe div 1460 + doe div 36524 - doe div 146096) div 365"

definition dayOfYear :: "int \<Rightarrow> int \<Rightarrow> int" where
  "dayOfYear doe yoe = doe - (365 * yoe + yoe div 4 - yoe div 100)"

definition monthOf :: "int \<Rightarrow> int" where
  "monthOf mp = (if mp < 10 then mp + 3 else mp - 9)"

definition civilOfMonth :: "int \<Rightarrow> int \<Rightarrow> int \<Rightarrow> int \<times> int \<times> int" where
  "civilOfMonth y doy mp =
     (y + (if monthOf mp \<le> 2 then 1 else 0), monthOf mp, doy - (153 * mp + 2) div 5 + 1)"

definition civilOfYear :: "int \<Rightarrow> int \<Rightarrow> int \<times> int \<times> int" where
  "civilOfYear y doy = civilOfMonth y doy ((5 * doy + 2) div 153)"

definition civilOfEra :: "int \<Rightarrow> int \<Rightarrow> int \<times> int \<times> int" where
  "civilOfEra era doe =
     civilOfYear (yearOfEra doe + era * 400) (dayOfYear doe (yearOfEra doe))"

definition civil :: "int \<Rightarrow> int \<times> int \<times> int" where
  "civil days = civilOfEra ((days + 719468) div 146097) (dayOfEra (days + 719468))"

definition formatCivil :: "int \<times> int \<times> int \<Rightarrow> gostring" where
  "formatCivil ymd =
     (case ymd of
        (y, m, d) \<Rightarrow> pad4 (nat y) @ gostr ''-'' @ pad2 (nat m) @ gostr ''-'' @ pad2 (nat d))"

definition formatClock :: "int \<Rightarrow> gostring" where
  "formatClock s =
     pad2 (nat (s div 3600)) @ gostr '':'' @ pad2 (nat ((s mod 3600) div 60)) @ gostr '':'' @
     pad2 (nat (s mod 60))"

definition formatDateUTC :: "time \<Rightarrow> gostring" where
  "formatDateUTC t = formatCivil (civil (t div (24 * Hour)))"

definition formatDateTimeUTC :: "time \<Rightarrow> gostring" where
  "formatDateTimeUTC t =
     formatDateUTC t @ gostr '' '' @ formatClock ((t mod (24 * Hour)) div 1000000000)"

definition formatCommitDateUTC :: "Commit \<Rightarrow> gostring" where
  "formatCommitDateUTC commit = formatDateUTC (Date commit)"

text \<open>
  The two conversions of \<^verbatim>\<open>strconv\<close> where no rounding takes place: a float whose value
  is an integer below \<^verbatim>\<open>1e21\<close> in magnitude is written as that integer, and the example
  system reads every literal as the number it denotes (the library does so for the
  literals that denote a float, such as the small integers of the examples).
\<close>

definition formatExact :: "rat \<Rightarrow> number" where
  "formatExact q =
     (if of_int \<lfloor>q\<rfloor> = q \<and> \<bar>q\<bar> < 10 ^ 21 then IntLit \<lfloor>q\<rfloor> else FracLit q)"

definition parseExact :: "number \<Rightarrow> float64 option" where
  "parseExact lit = (case lit of IntLit n \<Rightarrow> Some (Fin (of_int n)) | FracLit q \<Rightarrow> Some (Fin q))"

text \<open>
  Example data: a system with no files where no call fails (its clock at
  2024-02-01T10:30:00Z, its dates printed in UTC), and the custom configuration
  file of the README, which sets four fields of the header and nothing else.
\<close>

definition plainSystem :: System where
  "plainSystem =
     \<lparr>files = (\<lambda>path. None),
      MkdirAllFails = (\<lambda>path. False),
      WriteFileFails = (\<lambda>path. False),
      ReadFileFails = (\<lambda>path. False),
      Dir = (\<lambda>path. gostr ''.''),
      PathJoin = (\<lambda>a b. a @ gostr ''/'' @ b),
      Abs = (\<lambda>path. Inr path),
      Executable = Inr (gostr ''/opt/report/git-report-generator''),
      Now = 1706783400 * 1000000000,
      FormatDate = formatDateUTC,
      FormatDateTime = formatDateTimeUTC,
      OutputFileError = (\<lambda>path doc. None),
      FormatCommitDate = formatCommitDateUTC,
      FormatFloat = formatExact,
      ParseFloat = parseExact\<rparr>"

definition readmeConfigFile :: json where
  "readmeConfigFile =
     JObject
       [(gostr ''header'',
         JObject
           [(gostr ''template'',
             JString (gostr ''{{current_date}}\<newline>Development Report\<newline>\<newline>Developer: {{executor_name}}\<newline>Project: {{repository_name}}\<newline>Branch: {{branch_name}}\<newline>\<newline>Commits:'')),
            (gostr ''executor_name'', JString (gostr ''Your Name'')),
            (gostr ''executor_email'', JString (gostr ''your.email@company.com'')),
            (gostr ''recipient_name'', JString (gostr ''Your Company Ltd.''))])]"

section \<open>Package generator\<close>

text \<open>
  \<^verbatim>\<open>text/template\<close> is the library's: \<^verbatim>\<open>Parse\<close> (of a template created with
  \<^verbatim>\<open>Option("missingkey=zero")\<close>) turns a text into a template or fails, \<^verbatim>\<open>Execute\<close> renders
  a template against the data, a \<^verbatim>\<open>map[string]interface{}\<close> whose values are all strings, or
  fails. Both are parameters of the generator.
\<close>

record 't TemplateLib =
  Parse :: "gostring \<Rightarrow> gostring + 't"
  Execute :: "'t \<Rightarrow> (gostring \<Rightarrow> gostring option) \<Rightarrow> gostring + gostring"

text \<open>
  The library on the templates a header is written in: plain text and field actions
  \<^verbatim>\<open>{{.key}}\<close>. The text is cut at \<^verbatim>\<open>{{\<close> and \<^verbatim>\<open>}}\<close>; an action that does not close is a
  parse error, and so is here every action that is not one field (the model does not say
  what the library does with those). Executing a field looks the key up in the map. A key
  the map does not hold: under \<^verbatim>\<open>missingkey=zero\<close> the library takes the zero value of the
  map's element type, which for \<^verbatim>\<open>interface{}\<close> is the nil interface, and prints it as
  \<^verbatim>\<open><no value>\<close>.
\<close>

datatype node = TextNode gostring | FieldNode gostring

definition isFieldChar :: "rune \<Rightarrow> bool" where
  "isFieldChar r = ((48 \<le> r \<and> r \<le> 57) \<or> (65 \<le> r \<and> r \<le> 90) \<or> (97 \<le> r \<and> r \<le> 122) \<or> r = 95)"

definition isActionSpace :: "rune \<Rightarrow> bool" where
  "isActionSpace r = (r = 32 \<or> r = 9 \<or> r = 13 \<or> r = 10)"

definition parseAction :: "gostring \<Rightarrow> gostring + node" where
  "parseAction body =
     (case rev (dropWhile isActionSpace (rev (dropWhile isActionSpace body))) of
        [] \<Rightarrow> Inl (gostr ''missing value for command'')
      | c # name \<Rightarrow>
          if c = 46 \<and> name \<noteq> [] \<and> list_all isFieldChar name \<and> \<not> (48 \<le> hd name \<and> hd name \<le> 57)
          then Inr (FieldNode name)
          else Inl (gostr ''action outside the modelled templates''))"

definition textNodes :: "gostring \<Rightarrow> node list" where
  "textNodes t = (if t = [] then [] else [TextNode t])"

fun scan :: "bool \<Rightarrow> gostring \<Rightarrow> gostring \<Rightarrow> gostring + node list" where
  "scan False acc [] = Inr (textNodes acc)"
| "scan False acc [c] = Inr (textNodes (acc @ [c]))"
| "scan False acc (c # d # cs) =
     (if c = 123 \<and> d = 123
      then andThen (scan True [] cs) (\<lambda>ns. Inr (textNodes acc @ ns))
      else scan False (acc @ [c]) (d # cs))"
| "scan True acc [] = Inl (gostr ''unclosed action'')"
| "scan True acc [c] = Inl (gostr ''unclosed action'')"
| "scan True acc (c # d # cs) =
     (if c = 125 \<and> d = 125
      then andThen (parseAction acc) (\<lambda>n. andThen (scan False [] cs) (\<lambda>ns. Inr (n # ns)))
      else scan True (acc @ [c]) (d # cs))"

definition executeNode :: "(gostring \<Rightarrow> gostring option) \<Rightarrow> node \<Rightarrow> gostring" where
  "executeNode data n =
     (case n of
        TextNode t \<Rightarrow> t
      | FieldNode key \<Rightarrow> (case data key of Some v \<Rightarrow> v | None \<Rightarrow> gostr ''<no value>''))"

definition fieldTemplates :: "(node list) TemplateLib" where
  "fieldTemplates =
     \<lparr>Parse = scan False [],
      Execute = (\<lambda>nodes data. Inr (concat (map (executeNode data) nodes)))\<rparr>"

text \<open>
  \<^verbatim>\<open>ReportData\<close>. Its field \<^verbatim>\<open>AuthorEmail\<close> is \<^verbatim>\<open>ReportAuthorEmail\<close> here, the name
  being taken by the field of \<^verbatim>\<open>Commit\<close>.
\<close>

record ReportData =
  Config :: Config
  RepositoryName :: gostring
  RepositoryPath :: gostring
  BranchName :: gostring
  ReportAuthorEmail :: gostring
  DateFrom :: time
  DateTo :: time
  Commits :: "Commit list"

datatype genError =
    FailedExecutablePath gostring
  | FailedAbsFontPath gostring gostring
  | FailedFontPath genError
  | FailedBoldFontPath genError
  | FailedItalicFontPath genError
  | InvalidTemplateFormat
  | FailedParseDate gostring
  | FailedExecuteDate gostring
  | FailedParseRest gostring
  | FailedExecuteRest gostring
  | FailedSavePDF gostring

definition fontDir :: gostring where
  "fontDir = gostr ''fonts''"

definition fontName :: gostring where
  "fontName = gostr ''DejaVu''"

definition fontFile :: gostring where
  "fontFile = gostr ''DejaVuSans.ttf''"

definition fontBold :: gostring where
  "fontBold = gostr ''DejaVuSans-Bold.ttf''"

text \<open>
  The functions of the generator take the document built so far and return the error or
  the document with their calls added (every error of \<^verbatim>\<open>generateHeader\<close> is returned
  before its first call on the document). What they print on standard output is left
  out, and so are the queries \<^verbatim>\<open>GetStringWidth\<close>, \<^verbatim>\<open>GetPageSize\<close> and \<^verbatim>\<open>GetMargins\<close>,
  whose results the program does not use.
\<close>

definition getAbsFontPath :: "System \<Rightarrow> gostring \<Rightarrow> genError + gostring" where
  "getAbsFontPath sys fontFileName =
     (case Executable sys of
        Inl err \<Rightarrow> Inl (FailedExecutablePath err)
      | Inr executablePath \<Rightarrow>
          (let executableDir = Dir sys executablePath;
               relPath = PathJoin sys fontDir fontFileName
           in case Abs sys (PathJoin sys executableDir relPath) of
                Inl err \<Rightarrow> Inl (FailedAbsFontPath relPath err)
              | Inr absPath \<Rightarrow> Inr absPath))"

definition headerTemplateData :: "System \<Rightarrow> ReportData \<Rightarrow> gostring \<Rightarrow> gostring option" where
  "headerTemplateData sys data =
     map_of
       [(gostr ''executor_name'', ExecutorName (Header (Config data))),
        (gostr ''executor_email'', ExecutorEmail (Header (Config data))),
        (gostr ''recipient_name'', RecipientName (Header (Config data))),
        (gostr ''repository_name'', RepositoryName data),
        (gostr ''repository_path'', RepositoryPath data),
        (gostr ''branch_name'', BranchName data),
        (gostr ''date_from'', FormatDate sys (DateFrom data)),
        (gostr ''date_to'', FormatDate sys (DateTo data))]"

definition generateHeader ::
  "'t TemplateLib \<Rightarrow> System \<Rightarrow> ReportData \<Rightarrow> pdfCall list \<Rightarrow> genError + pdfCall list" where
  "generateHeader lib sys data pdf =
     (let lines = Split (Template (Header (Config data))) newline
      in if length lines < 2 then Inl InvalidTemplateFormat
         else
           (let dateLocLine = lines ! 0;
                titleLine = lines ! 1;
                restOfTemplate = Join (drop 2 lines) [newline];
                templateData = headerTemplateData sys data
            in case Parse lib dateLocLine of
                 Inl err \<Rightarrow> Inl (FailedParseDate err)
               | Inr dateTmpl \<Rightarrow>
              (case Execute lib dateTmpl templateData of
                 Inl err \<Rightarrow> Inl (FailedExecuteDate err)
               | Inr dateText \<Rightarrow>
              (case Parse lib restOfTemplate of
                 Inl err \<Rightarrow> Inl (FailedParseRest err)
               | Inr restTmpl \<Rightarrow>
              (case Execute lib restTmpl templateData of
                 Inl err \<Rightarrow> Inl (FailedExecuteRest err)
               | Inr restText \<Rightarrow>
                   Inr (pdf @
                     [SetFont fontName [] 11,
                      Cell 0 10 dateText,
                      Ln 12,
                      SetFont fontName (gostr ''B'') 16,
                      Cell 0 8 titleLine,
                      Ln 15,
                      SetFont fontName [] 11,
                      MultiCell 0 7 restText [] (gostr ''L'') False,
                      Ln 5]))))))"

text \<open>
  The texts of \<^verbatim>\<open>generateCommits\<close>; the letters outside ASCII are given by their code
  points (U+00F3, U+0141, U+0105).
\<close>

definition noCommitsText :: gostring where
  "noCommitsText = gostr ''Brak commit'' @ [243] @ gostr ''w w podanym okresie.''"

definition totalText :: "nat \<Rightarrow> gostring" where
  "totalText n = [321, 261] @ gostr ''czna liczba commit'' @ [243] @ gostr ''w: '' @ decimal n"

text \<open>The loop over the commits, \<^verbatim>\<open>i\<close> being the index of the first one left.\<close>

fun commitRows :: "System \<Rightarrow> nat \<Rightarrow> Commit list \<Rightarrow> pdfCall list \<Rightarrow> pdfCall list" where
  "commitRows sys i [] pdf = pdf"
| "commitRows sys i (commit # rest) pdf =
     commitRows sys (i + 1) rest
       (pdf @
        [if i mod 2 = 1 then SetFillColor 245 245 245 else SetFillColor 255 255 255,
         CellFormat 30 7 (FormatCommitDate sys commit) (gostr ''1'') 0 (gostr ''C'') True 0 [],
         CellFormat 25 7 (SHA commit) (gostr ''1'') 0 (gostr ''C'') True 0 [],
         MultiCell 0 7 (Message commit @ [newline] @ Description commit) (gostr ''1'')
           (gostr ''L'') False])"

definition generateCommits :: "System \<Rightarrow> ReportData \<Rightarrow> pdfCall list \<Rightarrow> genError + pdfCall list" where
  "generateCommits sys data pdf =
     (if length (Commits data) = 0
      then Inr (pdf @ [SetFont fontName (gostr ''I'') 11, Cell 0 6 noCommitsText])
      else
        (let pdf1 = pdf @
               [SetFont fontName (gostr ''B'') 10,
                SetFillColor 220 220 220,
                CellFormat 30 8 (gostr ''Data'') (gostr ''1'') 0 (gostr ''C'') True 0 [],
                CellFormat 25 8 (gostr ''SHA'') (gostr ''1'') 0 (gostr ''C'') True 0 [],
                CellFormat 0 8 (gostr ''Opis'') (gostr ''1'') 1 (gostr ''C'') True 0 [],
                SetFont fontName [] 10];
             pdf2 = commitRows sys 0 (Commits data) pdf1
         in Inr (pdf2 @
              [Ln 8,
               SetFont fontName (gostr ''B'') 11,
               Cell 0 8 (gostr ''Podsumowanie:''),
               Ln 8,
               SetFont fontName [] 10,
               Cell 0 6 (totalText (length (Commits data))),
               Ln 6,
               Cell 0 6 (gostr ''Autor: '' @ ReportAuthorEmail data),
               Ln 6,
               Cell 0 6 (gostr ''Okres: '' @ FormatDate sys (DateFrom data) @ gostr '' - '' @
                         FormatDate sys (DateTo data)),
               Ln 10,
               SetFont fontName (gostr ''I'') 8,
               SetTextColor 120 120 120,
               Cell 0 4 (gostr ''Raport wygenerowany: '' @ FormatDateTime sys (Now sys))])))"

text \<open>
  \<^verbatim>\<open>Generate\<close> returns the error, or the path and the document that
  \<^verbatim>\<open>OutputFileAndClose\<close> has written.
\<close>

definition Generate ::
  "'t TemplateLib \<Rightarrow> System \<Rightarrow> ReportData \<Rightarrow> gostring \<Rightarrow> genError + gostring \<times> pdfCall list" where
  "Generate lib sys data outputPath =
     (let executablePath = (case Executable sys of Inl err \<Rightarrow> [] | Inr path \<Rightarrow> path);
          executableDir = Dir sys executablePath;
          absFontDir = PathJoin sys executableDir fontDir
      in case getAbsFontPath sys fontFile of
           Inl err \<Rightarrow> Inl (FailedFontPath err)
         | Inr regularFontPath \<Rightarrow>
        (case getAbsFontPath sys fontBold of
           Inl err \<Rightarrow> Inl (FailedBoldFontPath err)
         | Inr boldFontPath \<Rightarrow>
        (let pdf0 =
               [New (gostr ''P'') (gostr ''mm'') (gostr ''A4'') absFontDir,
                AddUTF8Font fontName [] fontFile,
                AddUTF8Font fontName (gostr ''B'') fontBold];
             italicFontFile = gostr ''DejaVuSans-Oblique.ttf''
         in case getAbsFontPath sys italicFontFile of
              Inl err \<Rightarrow> Inl (FailedItalicFontPath err)
            | Inr italicFontPath \<Rightarrow>
           (let pdf1 = pdf0 @
                  [AddUTF8Font fontName (gostr ''I'') italicFontFile,
                   SetFont fontName [] 11,
                   AddPage,
                   SetMargins 20 20 20,
                   SetAutoPageBreak True 20]
            in case generateHeader lib sys data pdf1 of
                 Inl err \<Rightarrow> Inl err
               | Inr pdf2 \<Rightarrow>
              (case generateCommits sys data pdf2 of
                 Inl err \<Rightarrow> Inl err
               | Inr pdf3 \<Rightarrow>
                  (case OutputFileError sys outputPath pdf3 of
                     Some err \<Rightarrow> Inl (FailedSavePDF err)
                   | None \<Rightarrow> Inr (outputPath, pdf3)))))))"

text \<open>
  Example data: a report on branch \<^verbatim>\<open>main\<close> for January 2024 with a given header
  template and a given list of commits.
\<close>

definition reportOf :: "gostring \<Rightarrow> Commit list \<Rightarrow> ReportData" where
  "reportOf template commits =
     \<lparr>Config = DefaultConfig\<lparr>Header := (Header DefaultConfig)\<lparr>Template := template\<rparr>\<rparr>,
      RepositoryName = gostr ''my-project'',
      RepositoryPath = gostr ''/home/dev/my-project'',
      BranchName = gostr ''main'',
      ReportAuthorEmail = gostr ''dev@example.com'',
      DateFrom = jan01,
      DateTo = jan31,
      Commits = commits\<rparr>"


section \<open>Message splitting\<close>

lemma Split_not_Nil: "Split s sep \<noteq> []"
  by (induction s) (auto split: list.splits)

lemma descLoop_eq:
  "descLoop lines i acc = acc @ nonEmptyTrimmed (drop i lines)"
proof (induction lines i acc rule: descLoop.induct)
  case (1 lines i descLines)
  show ?case
  proof (cases "i < length lines")
    case True
    then have d: "drop i lines = lines ! i # drop (Suc i) lines"
      by (simp add: Cons_nth_drop_Suc)
    show ?thesis
      using True 1[OF True refl] 
      by (subst descLoop.simps) (simp add: d nonEmptyTrimmed_def Let_def)
  next
    case False
    then show ?thesis
      by (subst descLoop.simps) (simp add: nonEmptyTrimmed_def)
  qed
qed

lemma isSpace_newline: "isSpace newline"
  by (simp add: isSpace_def newline_def)

lemma TrimSpace_Cons_space: "isSpace c \<Longrightarrow> TrimSpace (c # l) = TrimSpace l"
  by (simp add: TrimSpace_def)

lemma TrimSpace_Nil_iff: "TrimSpace l = [] \<longleftrightarrow> (\<forall>c\<in>set l. isSpace c)"
proof
  assume t: "TrimSpace l = []"
  show "\<forall>c\<in>set l. isSpace c"
  proof (rule ccontr)
    assume "\<not> (\<forall>c\<in>set l. isSpace c)"
    then have ne: "dropWhile isSpace l \<noteq> []"
      by (simp add: dropWhile_eq_Nil_conv)
    then have "\<not> isSpace (hd (dropWhile isSpace l))"
      by (rule hd_dropWhile)
    moreover from t have "\<forall>x\<in>set (dropWhile isSpace l). isSpace x"
      by (simp add: TrimSpace_def dropWhile_eq_Nil_conv)
    ultimately show False using ne by (meson hd_in_set)
  qed
next
  assume "\<forall>c\<in>set l. isSpace c"
  then have "dropWhile isSpace l = []" by simp
  then show "TrimSpace l = []" by (simp only: TrimSpace_def rev.simps dropWhile.simps)
qed

lemma TrimSpace_snoc_space: "isSpace c \<Longrightarrow> TrimSpace (l @ [c]) = TrimSpace l"
proof (cases "\<forall>x\<in>set l. isSpace x")
  case True
  assume "isSpace c"
  with True have "TrimSpace (l @ [c]) = []" "TrimSpace l = []"
    by (simp_all add: TrimSpace_Nil_iff)
  then show ?thesis by simp
next
  case False
  assume c: "isSpace c"
  from False obtain x where "x \<in> set l" "\<not> isSpace x" by auto
  then have "dropWhile isSpace (l @ [c]) = dropWhile isSpace l @ [c]"
    by (rule dropWhile_append1)
  then show ?thesis using c by (simp add: TrimSpace_def)
qed

lemma nonEmptyTrimmed_Split_Cons_space:
  "isSpace c \<Longrightarrow> nonEmptyTrimmed (Split (c # s) newline) = nonEmptyTrimmed (Split s newline)"
  using Split_not_Nil[of s newline]
  by (auto simp: nonEmptyTrimmed_def TrimSpace_Cons_space TrimSpace_def split: list.splits)

lemma nonEmptyTrimmed_Split_ltrim:
  "nonEmptyTrimmed (Split (dropWhile isSpace s) newline) = nonEmptyTrimmed (Split s newline)"
  by (induction s) (simp_all add: nonEmptyTrimmed_Split_Cons_space del: Split.simps)

lemma Split_snoc:
  "Split (s @ [c]) sep =
     (if c = sep then Split s sep @ [[]]
      else butlast (Split s sep) @ [last (Split s sep) @ [c]])"
proof (induction s)
  case Nil
  then show ?case by simp
next
  case (Cons a s)
  obtain l ls where sp: "Split s sep = l # ls"
    using Split_not_Nil[of s sep] by (cases "Split s sep") auto
  show ?case
    using Cons sp by (auto split: list.splits if_splits)
qed

lemma nonEmptyTrimmed_append:
  "nonEmptyTrimmed (xs @ ys) = nonEmptyTrimmed xs @ nonEmptyTrimmed ys"
  by (simp add: nonEmptyTrimmed_def)

lemma nonEmptyTrimmed_Split_snoc_space:
  assumes "isSpace c"
  shows "nonEmptyTrimmed (Split (s @ [c]) newline) = nonEmptyTrimmed (Split s newline)"
proof -
  have ne: "Split s newline \<noteq> []" by (rule Split_not_Nil)
  then have dec: "Split s newline = butlast (Split s newline) @ [last (Split s newline)]"
    by simp
  show ?thesis
  proof (cases "c = newline")
    case True
    then show ?thesis
      by (simp add: Split_snoc nonEmptyTrimmed_append) (simp add: nonEmptyTrimmed_def TrimSpace_def)
  next
    case False
    have "nonEmptyTrimmed (Split (s @ [c]) newline) =
          nonEmptyTrimmed (butlast (Split s newline)) @ nonEmptyTrimmed [last (Split s newline) @ [c]]"
      using False by (simp add: Split_snoc nonEmptyTrimmed_append)
    also have "nonEmptyTrimmed [last (Split s newline) @ [c]] = nonEmptyTrimmed [last (Split s newline)]"
      using assms by (simp add: nonEmptyTrimmed_def TrimSpace_snoc_space)
    also have "nonEmptyTrimmed (butlast (Split s newline)) @ nonEmptyTrimmed [last (Split s newline)]
               = nonEmptyTrimmed (Split s newline)"
      by (subst (3) dec) (simp only: nonEmptyTrimmed_append)
    finally show ?thesis .
  qed
qed

lemma nonEmptyTrimmed_Split_rtrim:
  "nonEmptyTrimmed (Split (rev (dropWhile isSpace (rev s))) newline) = nonEmptyTrimmed (Split s newline)"
proof (induction s rule: rev_induct)
  case Nil
  then show ?case by simp
next
  case (snoc c s)
  then show ?case
    by (simp add: nonEmptyTrimmed_Split_snoc_space del: Split.simps)
qed

lemma nonEmptyTrimmed_Split_TrimSpace:
  "nonEmptyTrimmed (Split (TrimSpace s) newline) = nonEmptyTrimmed (Split s newline)"
  unfolding TrimSpace_def
  by (simp only: nonEmptyTrimmed_Split_rtrim nonEmptyTrimmed_Split_ltrim)

lemma nonEmptyTrimmed_dropWhile:
  "nonEmptyTrimmed ls =
     (case dropWhile (\<lambda>l. TrimSpace l = []) ls of
        [] \<Rightarrow> []
      | l # rest \<Rightarrow> TrimSpace l # nonEmptyTrimmed rest)"
  by (induction ls) (auto simp: nonEmptyTrimmed_def)

lemma hd_TrimSpace_not_space:
  assumes "TrimSpace s \<noteq> []"
  shows "\<not> isSpace (hd (TrimSpace s))"
proof -
  let ?m = "dropWhile isSpace s"
  have pre: "?m = TrimSpace s @ rev (takeWhile isSpace (rev ?m))"
  proof -
    have "TrimSpace s @ rev (takeWhile isSpace (rev ?m)) =
          rev (takeWhile isSpace (rev ?m) @ dropWhile isSpace (rev ?m))"
      by (simp only: TrimSpace_def rev_append)
    also have "\<dots> = ?m"
      by (simp only: takeWhile_dropWhile_id rev_rev_ident)
    finally show ?thesis by (rule sym)
  qed
  from assms pre have "?m \<noteq> []" by (metis append_is_Nil_conv)
  then have "\<not> isSpace (hd ?m)" by (rule hd_dropWhile)
  moreover have "hd ?m = hd (TrimSpace s)"
    using assms pre by (metis hd_append2)
  ultimately show ?thesis by simp
qed

lemma TrimSpace_hd_Split_not_Nil:
  assumes "t \<noteq> []" "\<not> isSpace (hd t)"
  shows "TrimSpace (hd (Split t newline)) \<noteq> []"
proof -
  obtain c cs where t: "t = c # cs" using assms(1) by (cases t) auto
  with assms(2) have c: "\<not> isSpace c" by simp
  then have "c \<noteq> newline" using isSpace_newline by auto
  then have "hd (Split t newline) = c # hd (Split cs newline)"
    using Split_not_Nil[of cs newline] by (auto simp: t split: list.splits)
  then show ?thesis using c by (auto simp: TrimSpace_Nil_iff)
qed


lemma titleSpec_cases:
  "titleSpec msg =
     (case dropWhile (\<lambda>l. TrimSpace l = []) (Split msg newline) of
        [] \<Rightarrow> []
      | l # rest \<Rightarrow> TrimSpace l)"
proof (cases "dropWhile (\<lambda>l. TrimSpace l = []) (Split msg newline)")
  case Nil
  have "TrimSpace [] = []"
    by (simp add: TrimSpace_def)
  then show ?thesis
    by (simp only: titleSpec_def firstNonEmptyLine_def Nil list.case)
next
  case (Cons l rest)
  show ?thesis
    by (simp only: titleSpec_def firstNonEmptyLine_def Cons list.case)
qed

lemma parseCommitMessage_spec:
  "parseCommitMessage m = (titleSpec m, descriptionSpec m)"
proof -
  let ?L = "Split (TrimSpace m) newline"
  have ne: "?L \<noteq> []" by (rule Split_not_Nil)
  then obtain l ls where L: "?L = l # ls" by (cases ?L) auto
  have code: "parseCommitMessage m = (TrimSpace l, Join (nonEmptyTrimmed ls) space)"
    unfolding parseCommitMessage_def L Let_def descLoop_eq
    by (cases ls) (simp_all add: nonEmptyTrimmed_def)
  have n: "nonEmptyTrimmed ?L = nonEmptyTrimmed (Split m newline)"
    by (rule nonEmptyTrimmed_Split_TrimSpace)
  show ?thesis
  proof (cases "TrimSpace m = []")
    case True
    then have "l = []" "ls = []" using L by simp_all
    moreover have "nonEmptyTrimmed (Split [] newline) = []"
      by (simp add: nonEmptyTrimmed_def TrimSpace_def)
    with True n have "nonEmptyTrimmed (Split m newline) = []"
      by simp
    then have d: "dropWhile (\<lambda>l. TrimSpace l = []) (Split m newline) = []"
      by (subst (asm) nonEmptyTrimmed_dropWhile) (simp split: list.splits)
    have "titleSpec m = []" "descriptionSpec m = []"
      by (simp_all only: titleSpec_cases descriptionSpec_def d list.case)
    moreover have "TrimSpace [] = []" "Join (nonEmptyTrimmed []) space = []"
      by (simp_all add: TrimSpace_def nonEmptyTrimmed_def)
    ultimately show ?thesis
      by (simp only: code)
  next
    case False
    then have "TrimSpace (hd ?L) \<noteq> []"
      by (intro TrimSpace_hd_Split_not_Nil hd_TrimSpace_not_space)
    then have tl: "TrimSpace l \<noteq> []" by (simp add: L)
    then have "nonEmptyTrimmed ?L = TrimSpace l # nonEmptyTrimmed ls"
      by (simp add: L nonEmptyTrimmed_def)
    with n have "nonEmptyTrimmed (Split m newline) = TrimSpace l # nonEmptyTrimmed ls"
      by simp
    then obtain l' rest where
      d: "dropWhile (\<lambda>l. TrimSpace l = []) (Split m newline) = l' # rest"
      and e: "TrimSpace l' = TrimSpace l" "nonEmptyTrimmed rest = nonEmptyTrimmed ls"
      by (subst (asm) nonEmptyTrimmed_dropWhile) (auto split: list.splits)
    have "titleSpec m = TrimSpace l'" "descriptionSpec m = Join (nonEmptyTrimmed rest) space"
      by (simp_all only: titleSpec_cases descriptionSpec_def d list.case nonEmptyTrimmed_def)
    then show ?thesis
      by (simp only: code e)
  qed
qed


lemma parseCommitMessage_blank:
  assumes "\<forall>c\<in>set m. isSpace c"
  shows "parseCommitMessage m = ([], [])"
proof -
  from assms have t: "TrimSpace m = []"
    by (simp only: TrimSpace_Nil_iff)
  have e: "TrimSpace [] = []"
    by (simp add: TrimSpace_def)
  show ?thesis
    unfolding parseCommitMessage_def t by (simp add: e)
qed

text \<open>
  Claim C3 (as amended). For every raw message, \<^verbatim>\<open>parseCommitMessage\<close> returns as
  title the first non-empty line of the message with the white space around it trimmed
  away, and as description the later non-empty lines, each trimmed, joined with one
  space; a message of white space only gives an empty title and an empty description.
  The two examples of the specification and a message of white space only are evaluated.
\<close>

theorem parseCommitMessage_title_description:
  "parseCommitMessage m = (titleSpec m, descriptionSpec m) \<and>
   parseCommitMessage (gostr ''Title\<newline>\<newline>Body line 1\<newline>\<newline>Body line 2'') =
     (gostr ''Title'', gostr ''Body line 1 Body line 2'') \<and>
   parseCommitMessage (gostr ''Solo title'') = (gostr ''Solo title'', []) \<and>
   parseCommitMessage (gostr '' \<newline>  '') = ([], [])"
proof (intro conjI)
  show "parseCommitMessage m = (titleSpec m, descriptionSpec m)"
    by (rule parseCommitMessage_spec)
  show "parseCommitMessage (gostr ''Title\<newline>\<newline>Body line 1\<newline>\<newline>Body line 2'') =
     (gostr ''Title'', gostr ''Body line 1 Body line 2'')"
    by (simp add: parseCommitMessage_def gostr_def TrimSpace_def isSpace_def newline_def
        space_def descLoop.simps)
  show "parseCommitMessage (gostr ''Solo title'') = (gostr ''Solo title'', [])"
    by (simp add: parseCommitMessage_def gostr_def TrimSpace_def isSpace_def newline_def
        space_def descLoop.simps)
  show "parseCommitMessage (gostr '' \<newline>  '') = ([], [])"
    by (simp add: parseCommitMessage_def gostr_def TrimSpace_def isSpace_def newline_def
        space_def descLoop.simps)
qed

text \<open>
  A first line that ends in white space: the title is not that line but the line
  trimmed.
\<close>

theorem parseCommitMessage_title_is_trimmed:
  "parseCommitMessage (gostr ''Title  \<newline>Body'') = (gostr ''Title'', gostr ''Body'') \<and>
   firstNonEmptyLine (gostr ''Title  \<newline>Body'') = gostr ''Title  '' \<and>
   fst (parseCommitMessage (gostr ''Title  \<newline>Body'')) \<noteq>
     firstNonEmptyLine (gostr ''Title  \<newline>Body'')"
  by (simp add: parseCommitMessage_def firstNonEmptyLine_def gostr_def TrimSpace_def isSpace_def
      newline_def space_def descLoop.simps)

section \<open>Ordering of the selected commits\<close>

lemma swap_step:
  assumes "i < j" "j < length cs" "maxSoFar i j cs" "prefixDone i cs"
  defines "cs' \<equiv> (if Date (cs ! i) < Date (cs ! j) then cs[i := cs ! j, j := cs ! i] else cs)"
  shows "maxSoFar i (j + 1) cs'" "prefixDone i cs'"
proof -
  show "maxSoFar i (j + 1) cs'"
    unfolding maxSoFar_def cs'_def
  proof (intro allI impI)
    fix k
    assume k: "i < k \<and> k < j + 1 \<and> k < length (if Date (cs ! i) < Date (cs ! j) then cs[i := cs ! j, j := cs ! i] else cs)"
    then have "k < j \<or> k = j" by auto
    then show "Date ((if Date (cs ! i) < Date (cs ! j) then cs[i := cs ! j, j := cs ! i] else cs) ! k)
         \<le> Date ((if Date (cs ! i) < Date (cs ! j) then cs[i := cs ! j, j := cs ! i] else cs) ! i)"
    proof
      assume kj: "k < j"
      with k assms(2) have "Date (cs ! k) \<le> Date (cs ! i)"
        using assms(3) by (auto simp: maxSoFar_def)
      with kj k assms(1,2) show ?thesis
        by (auto simp: nth_list_update)
    next
      assume "k = j"
      with assms(1,2) show ?thesis
        by (auto simp: nth_list_update)
    qed
  qed
  show "prefixDone i cs'"
    unfolding prefixDone_def cs'_def
  proof (intro allI impI)
    fix a b
    assume ab: "a < i \<and> a < b \<and> b < length (if Date (cs ! i) < Date (cs ! j) then cs[i := cs ! j, j := cs ! i] else cs)"
    then have b: "b < length cs" by (auto split: if_splits)
    have 1: "Date (cs ! b) \<le> Date (cs ! a)" "Date (cs ! i) \<le> Date (cs ! a)" "Date (cs ! j) \<le> Date (cs ! a)"
      using assms(1,2,4) ab b by (auto simp: prefixDone_def)
    with ab assms(1,2) show "Date ((if Date (cs ! i) < Date (cs ! j) then cs[i := cs ! j, j := cs ! i] else cs) ! b)
         \<le> Date ((if Date (cs ! i) < Date (cs ! j) then cs[i := cs ! j, j := cs ! i] else cs) ! a)"
      by (auto simp: nth_list_update)
  qed
qed

lemma innerLoop_inv:
  "i < j \<Longrightarrow> maxSoFar i j cs \<Longrightarrow> prefixDone i cs \<Longrightarrow>
   maxSoFar i (length cs) (innerLoop i j cs) \<and> prefixDone i (innerLoop i j cs)"
proof (induction i j cs rule: innerLoop.induct)
  case (1 i j commits)
  show ?case
  proof (cases "j < length commits")
    case True
    let ?cs' = "(if Date (commits ! i) < Date (commits ! j)
              then commits[i := commits ! j, j := commits ! i] else commits)"
    have "maxSoFar i (j + 1) ?cs'" "prefixDone i ?cs'"
      using swap_step[OF "1.prems"(1) True "1.prems"(2,3)] by simp_all
    then have "maxSoFar i (length ?cs') (innerLoop i (j + 1) ?cs') \<and> prefixDone i (innerLoop i (j + 1) ?cs')"
      using "1.IH"[OF True] "1.prems"(1) by simp
    moreover have "length ?cs' = length commits" by simp
    moreover have "innerLoop i j commits = innerLoop i (j + 1) ?cs'"
      using True by (subst innerLoop.simps) simp
    ultimately show ?thesis by simp
  next
    case False
    then have "innerLoop i j commits = commits"
      by (subst innerLoop.simps) simp
    moreover from False "1.prems"(2) have "maxSoFar i (length commits) commits"
      by (auto simp: maxSoFar_def)
    ultimately show ?thesis using "1.prems"(3) by simp
  qed
qed

lemma prefixDone_Suc:
  assumes "maxSoFar i (length cs) cs" "prefixDone i cs"
  shows "prefixDone (i + 1) cs"
  unfolding prefixDone_def
proof (intro allI impI)
  fix a b
  assume "a < i + 1 \<and> a < b \<and> b < length cs"
  then have "(a < i \<or> a = i) \<and> a < b \<and> b < length cs" by auto
  then show "Date (cs ! b) \<le> Date (cs ! a)"
    using assms by (auto simp: prefixDone_def maxSoFar_def)
qed

lemma outerLoop_sorted:
  "prefixDone i cs \<Longrightarrow> sorted_wrt newerFirst (outerLoop i cs)"
proof (induction i cs rule: outerLoop.induct)
  case (1 i commits)
  show ?case
  proof (cases "int i < int (length commits) - 1")
    case True
    have "maxSoFar i (i + 1) commits" by (simp add: maxSoFar_def)
    then have "maxSoFar i (length commits) (innerLoop i (i + 1) commits) \<and>
               prefixDone i (innerLoop i (i + 1) commits)"
      using innerLoop_inv[of i "i + 1" commits] "1.prems" by simp
    then have "prefixDone (i + 1) (innerLoop i (i + 1) commits)"
      using prefixDone_Suc[of i "innerLoop i (i + 1) commits"] by (simp add: length_innerLoop)
    then have "sorted_wrt newerFirst (outerLoop (i + 1) (innerLoop i (i + 1) commits))"
      by (rule "1.IH"[OF True])
    then show ?thesis
      using True by (subst outerLoop.simps) simp
  next
    case False
    then have "outerLoop i commits = commits"
      by (subst outerLoop.simps) simp
    moreover have "sorted_wrt newerFirst commits"
      unfolding sorted_wrt_iff_nth_less newerFirst_def
    proof (intro allI impI)
      fix a b
      assume "a < b" "b < length commits"
      with False have "a < i \<and> a < b \<and> b < length commits" by auto
      with "1.prems" show "Date (commits ! b) \<le> Date (commits ! a)"
        by (auto simp: prefixDone_def)
    qed
    ultimately show ?thesis by simp
  qed
qed

lemma mset_innerLoop: "i < length cs \<Longrightarrow> mset (innerLoop i j cs) = mset cs"
proof (induction i j cs rule: innerLoop.induct)
  case (1 i j commits)
  show ?case
  proof (cases "j < length commits")
    case True
    let ?cs' = "(if Date (commits ! i) < Date (commits ! j)
              then commits[i := commits ! j, j := commits ! i] else commits)"
    have "mset ?cs' = mset commits"
      using True "1.prems" by (simp add: mset_swap)
    moreover have "mset (innerLoop i (j + 1) ?cs') = mset ?cs'"
      using "1.IH"[OF True] "1.prems" by simp
    moreover have "innerLoop i j commits = innerLoop i (j + 1) ?cs'"
      using True by (subst innerLoop.simps) simp
    ultimately show ?thesis by simp
  next
    case False
    then show ?thesis by (subst innerLoop.simps) simp
  qed
qed

lemma mset_outerLoop: "mset (outerLoop i cs) = mset cs"
proof (induction i cs rule: outerLoop.induct)
  case (1 i commits)
  show ?case
  proof (cases "int i < int (length commits) - 1")
    case True
    then have "i < length commits" by simp
    then have "mset (innerLoop i (i + 1) commits) = mset commits"
      by (rule mset_innerLoop)
    with "1.IH"[OF True] True show ?thesis
      by (subst outerLoop.simps) simp
  next
    case False
    then show ?thesis by (subst outerLoop.simps) simp
  qed
qed


lemma prefixDone_0: "prefixDone 0 cs"
  by (simp add: prefixDone_def)

lemma foldl_forEachCallback_Date:
  "map Date (foldl (forEachCallback EqualFold fromDate toDate authorEmail) acc yielded) =
   map Date acc @
   map (\<lambda>c. When (objAuthor c))
     (filter (\<lambda>c. fromDate \<le> When (objAuthor c) \<and> When (objAuthor c) \<le> toDate + 24 * Hour \<and>
                  EqualFold (Email (objAuthor c)) authorEmail) yielded)"
  by (induction yielded arbitrary: acc)
     (auto simp: forEachCallback_def split: prod.splits)

lemma GetCommits_kept:
  assumes "GetCommits EqualFold repo fromDate toDate authorEmail branchName = Inr commits"
    and "Reference repo (gostr ''refs/heads/'' @ branchName) = Inr hash"
    and "Log repo hash = Inr (yielded, iterErr)"
  shows "mset (map Date commits) =
         mset (map (\<lambda>c. When (objAuthor c))
           (filter (\<lambda>c. fromDate \<le> When (objAuthor c) \<and> When (objAuthor c) \<le> toDate + 24 * Hour \<and>
                        EqualFold (Email (objAuthor c)) authorEmail) yielded))"
proof -
  let ?cs = "foldl (forEachCallback EqualFold fromDate toDate authorEmail) [] yielded"
  from assms have "commits = outerLoop 0 ?cs"
    by (auto simp: GetCommits_def Let_def split: option.splits)
  then have "mset (map Date commits) = mset (map Date ?cs)"
    by (simp add: mset_outerLoop)
  then show ?thesis
    by (simp only: foldl_forEachCallback_Date list.map append_Nil)
qed

lemmas eval_git =
  GetCommits_def repoOf_def objectCommit_def commitJan10_def commitJan31_def commitFeb01_def
  forEachCallback_def parseCommitMessage_def gostr_def TrimSpace_def isSpace_def newline_def
  space_def descLoop.simps outerLoop.simps innerLoop.simps jan01_def jan31_def Hour_def
  asciiEqualFold_def asciiLower_def

text \<open>
  Claim C1 (the code departs from it). The specification keeps a commit when
  \<^verbatim>\<open>fromDate <= t < toDate + 1 day\<close> and the author matches; \<^verbatim>\<open>GetCommits\<close> drops a
  commit only when its time is after \<^verbatim>\<open>toDate.Add(24*time.Hour)\<close>, so a commit of the
  matching author stamped exactly at the midnight after \<^verbatim>\<open>toDate\<close> is returned although
  the specified filter excludes it.
\<close>

theorem GetCommits_keeps_next_midnight:
  "GetCommits asciiEqualFold (repoOf [commitFeb01]) jan01 jan31 (gostr ''dev@example.com'')
     (gostr ''main'') =
   Inr [\<lparr>SHA = gostr ''33333333'', Date = jan31 + 24 * Hour, Message = gostr ''Third'',
         Description = [], Author = gostr ''Dev'', AuthorEmail = gostr ''dev@example.com''\<rparr>] \<and>
   When (objAuthor commitFeb01) = jan31 + 24 * Hour \<and>
   \<not> keepSpec asciiEqualFold jan01 jan31 (gostr ''dev@example.com'') commitFeb01"
  by (simp add: eval_git keepSpec_def)

text \<open>
  Claim C2. Whenever \<^verbatim>\<open>GetCommits\<close> returns a list, the list is ordered newest first:
  of any two of its elements the earlier one has the greater or equal author time, in
  particular every two adjacent ones, whatever order the log walk yielded the commits in.
\<close>

theorem GetCommits_newest_first:
  assumes "GetCommits EqualFold repo fromDate toDate authorEmail branchName = Inr commits"
  shows "sorted_wrt newerFirst commits"
proof -
  from assms obtain cs where "commits = outerLoop 0 cs"
    by (auto simp: GetCommits_def Let_def split: sum.splits option.splits)
  then show ?thesis
    by (simp add: outerLoop_sorted prefixDone_0)
qed

theorem GetCommits_newest_first_witness:
  "GetCommits asciiEqualFold (repoOf [commitJan10, commitJan31]) jan01 jan31
     (gostr ''dev@example.com'') (gostr ''main'') =
   Inr [\<lparr>SHA = gostr ''22222222'', Date = 1706745540 * 1000000000, Message = gostr ''Second'',
         Description = gostr ''more'', Author = gostr ''Dev'',
         AuthorEmail = gostr ''Dev@Example.com''\<rparr>,
        \<lparr>SHA = gostr ''11111111'', Date = 1704844800 * 1000000000, Message = gostr ''First'',
         Description = [], Author = gostr ''Dev'', AuthorEmail = gostr ''dev@example.com''\<rparr>] \<and>
   sorted_wrt newerFirst
     [\<lparr>SHA = gostr ''22222222'', Date = 1706745540 * 1000000000, Message = gostr ''Second'',
         Description = gostr ''more'', Author = gostr ''Dev'',
         AuthorEmail = gostr ''Dev@Example.com''\<rparr>,
        \<lparr>SHA = gostr ''11111111'', Date = 1704844800 * 1000000000, Message = gostr ''First'',
         Description = [], Author = gostr ''Dev'', AuthorEmail = gostr ''dev@example.com''\<rparr>]"
proof -
  have e: "GetCommits asciiEqualFold (repoOf [commitJan10, commitJan31]) jan01 jan31
     (gostr ''dev@example.com'') (gostr ''main'') =
   Inr [\<lparr>SHA = gostr ''22222222'', Date = 1706745540 * 1000000000, Message = gostr ''Second'',
         Description = gostr ''more'', Author = gostr ''Dev'',
         AuthorEmail = gostr ''Dev@Example.com''\<rparr>,
        \<lparr>SHA = gostr ''11111111'', Date = 1704844800 * 1000000000, Message = gostr ''First'',
         Description = [], Author = gostr ''Dev'', AuthorEmail = gostr ''dev@example.com''\<rparr>]"
    by (simp add: eval_git)
  from e GetCommits_newest_first[OF e] show ?thesis
    by (rule conjI)
qed

section \<open>Validation, loading and saving of the configuration\<close>

lemmas eval_tags = headerTags_def pdfTags_def configTags_def gostr_def findField_def

text \<open>
  Claim C9 (as amended). \<^verbatim>\<open>Validate\<close> returns no error exactly when the configuration
  has no violation, and otherwise the error of the first violation in the order empty
  template, font size not positive, negative margin; it does not aggregate.
\<close>

theorem Validate_first_violation:
  "Validate c = (case violations c of [] \<Rightarrow> None | v # vs \<Rightarrow> Some v)"
  by (simp add: Validate_def violations_def)

text \<open>
  The zero configuration has an empty template and a font size that is not positive;
  \<^verbatim>\<open>Validate\<close> reports the template only.
\<close>

theorem Validate_not_aggregated:
  "violations zeroConfig = [TemplateEmpty, FontSizeNotPositive] \<and>
   Validate zeroConfig = Some TemplateEmpty \<and>
   Validate zeroConfig \<noteq> Some FontSizeNotPositive"
  by (simp add: Validate_def violations_def zeroConfig_def)

text \<open>
  Claim C7 (the code departs from it). \<^verbatim>\<open>Load\<close> decodes the file into the zero
  \<^verbatim>\<open>Config\<close>, not into \<^verbatim>\<open>DefaultConfig()\<close>: the fields a file leaves out are zero, and
  the custom configuration file of the README, which sets the header only, is rejected
  because the font size is not positive.
\<close>

theorem Load_header_only_rejected:
  "Load (plainSystem\<lparr>files := (files plainSystem)(gostr ''my-config.json'' \<mapsto> JSONText readmeConfigFile)\<rparr>)
     asciiEqualFold (gostr ''my-config.json'') =
   Inl (InvalidConfiguration FontSizeNotPositive)"
  by (simp add: Load_def plainSystem_def readmeConfigFile_def Unmarshal_def decodeConfigMember_def
      decodeHeader_def decodeHeaderMember_def decodeString_def andThen_def eval_tags
      toValidUTF8_def isScalar_def zeroConfig_def Validate_def)

lemma decodeInt_sint: "decodeInt (JNumber (IntLit (sint (w::goint)))) old = Inr w"
proof -
  have "- (2 ^ 63) \<le> sint w" "sint w < 2 ^ 63"
    using sint_ge[of w] sint_lt[of w] by simp_all
  then show ?thesis by (simp add: decodeInt_def)
qed

lemma decodeColor_marshalColor: "decodeColor (marshalColor col) old = Inr col"
  by (cases col; cases old)
     (simp add: decodeColor_def marshalColor_def decodeElem_def andThen_def decodeInt_sint)

lemma toValidUTF8_valid: "validUTF8 s \<Longrightarrow> toValidUTF8 s = s"
  by (induction s) (simp_all add: validUTF8_def toValidUTF8_def)

lemma decodeString_marshalled:
  "validUTF8 s \<Longrightarrow> decodeString (JString (toValidUTF8 s)) old = Inr s"
  by (simp add: decodeString_def toValidUTF8_valid)

lemma decodeFloat64_marshalFloat64:
  assumes "readsBack sys x" and "marshalFloat64 (FormatFloat sys) x = Inr v"
  shows "decodeFloat64 (ParseFloat sys) v old = Inr x"
  using assms by (cases x) (auto simp: marshalFloat64_def decodeFloat64_def)

lemma marshalFloat64_isFin: "isFin x \<Longrightarrow> \<exists>v. marshalFloat64 formatFloat x = Inr v"
  by (cases x) (simp_all add: marshalFloat64_def)

lemma decodeHeader_marshalHeader:
  assumes "validUTF8 (Template h)" "validUTF8 (ExecutorName h)" "validUTF8 (ExecutorEmail h)"
    "validUTF8 (RecipientName h)" "validUTF8 (Location h)"
  shows "decodeHeader foldEq (marshalHeader h) h0 = Inr h"
  using assms
  by (simp add: decodeHeader_def marshalHeader_def decodeHeaderMember_def
      decodeString_marshalled andThen_def eval_tags)

lemma decodePDF_marshalPDF:
  assumes "marshalPDF (FormatFloat sys) p = Inr v"
    and r: "readsBack sys (MarginTop p)" "readsBack sys (MarginBottom p)"
      "readsBack sys (MarginLeft p)" "readsBack sys (MarginRight p)" "readsBack sys (FontSize p)"
    and u: "validUTF8 (FontFamily p)"
  shows "decodePDF (ParseFloat sys) foldEq v p0 = Inr p"
proof -
  from assms(1) obtain mt mb ml mr fs where
    m: "marshalFloat64 (FormatFloat sys) (MarginTop p) = Inr mt"
       "marshalFloat64 (FormatFloat sys) (MarginBottom p) = Inr mb"
       "marshalFloat64 (FormatFloat sys) (MarginLeft p) = Inr ml"
       "marshalFloat64 (FormatFloat sys) (MarginRight p) = Inr mr"
       "marshalFloat64 (FormatFloat sys) (FontSize p) = Inr fs"
    and v: "v = JObject
         [(gostr ''margin_top'', mt),
          (gostr ''margin_bottom'', mb),
          (gostr ''margin_left'', ml),
          (gostr ''margin_right'', mr),
          (gostr ''font_family'', JString (toValidUTF8 (FontFamily p))),
          (gostr ''font_size'', fs),
          (gostr ''header_color'', marshalColor (HeaderColor p)),
          (gostr ''content_color'', marshalColor (ContentColor p))]"
    by (auto simp: marshalPDF_def andThen_def split: sum.splits)
  have d: "\<And>old. decodeFloat64 (ParseFloat sys) mt old = Inr (MarginTop p)"
      "\<And>old. decodeFloat64 (ParseFloat sys) mb old = Inr (MarginBottom p)"
      "\<And>old. decodeFloat64 (ParseFloat sys) ml old = Inr (MarginLeft p)"
      "\<And>old. decodeFloat64 (ParseFloat sys) mr old = Inr (MarginRight p)"
      "\<And>old. decodeFloat64 (ParseFloat sys) fs old = Inr (FontSize p)"
    using m r by (simp_all add: decodeFloat64_marshalFloat64)
  show ?thesis
    unfolding v
    by (simp add: decodePDF_def decodePDFMember_def decodeString_marshalled[OF u] andThen_def
        eval_tags d decodeColor_marshalColor)
qed

lemma Unmarshal_MarshalIndent:
  assumes "MarshalIndent (FormatFloat sys) c = Inr v"
    and "validStrings c" and "floatsReadBack sys c"
  shows "Unmarshal (ParseFloat sys) foldEq v c0 = Inr c"
proof -
  from assms(1) obtain p where p: "marshalPDF (FormatFloat sys) (PDF c) = Inr p"
    and v: "v = JObject [(gostr ''header'', marshalHeader (Header c)), (gostr ''pdf'', p)]"
    by (auto simp: MarshalIndent_def andThen_def split: sum.splits)
  have h: "\<And>h0. decodeHeader foldEq (marshalHeader (Header c)) h0 = Inr (Header c)"
    using assms(2) by (simp add: validStrings_def decodeHeader_marshalHeader)
  have q: "\<And>p0. decodePDF (ParseFloat sys) foldEq p p0 = Inr (PDF c)"
    using assms(2,3) decodePDF_marshalPDF[OF p]
    by (simp add: validStrings_def floatsReadBack_def)
  show ?thesis
    unfolding v
    by (simp add: Unmarshal_def decodeConfigMember_def andThen_def eval_tags h q)
qed

lemma MarshalIndent_finite:
  assumes "finiteConfig c"
  shows "\<exists>v. MarshalIndent formatFloat c = Inr v"
proof -
  from assms obtain mt mb ml mr fs where
    "marshalFloat64 formatFloat (MarginTop (PDF c)) = Inr mt"
    "marshalFloat64 formatFloat (MarginBottom (PDF c)) = Inr mb"
    "marshalFloat64 formatFloat (MarginLeft (PDF c)) = Inr ml"
    "marshalFloat64 formatFloat (MarginRight (PDF c)) = Inr mr"
    "marshalFloat64 formatFloat (FontSize (PDF c)) = Inr fs"
    unfolding finiteConfig_def by (meson marshalFloat64_isFin)
  then show ?thesis
    by (simp add: MarshalIndent_def marshalPDF_def andThen_def)
qed

text \<open>
  Claim C8 (as amended). For every configuration that passes \<^verbatim>\<open>Validate\<close>, whose
  margins and font size are numbers (not an infinity, not NaN) that \<^verbatim>\<open>strconv\<close> reads
  back from the digits it writes for them, and whose strings are valid UTF-8, saving it
  to a non-empty path and loading that path gives back the configuration, field for
  field, whenever creating the directory, writing the file and reading it do not fail.
\<close>

theorem Save_Load_roundtrip:
  assumes "Validate c = None" and "finiteConfig c" and "validStrings c"
    and "floatsReadBack sys c" and "configPath \<noteq> []"
    and "\<not> MkdirAllFails sys (Dir sys configPath)"
    and "\<not> WriteFileFails sys configPath"
    and "\<not> ReadFileFails sys configPath"
  shows "\<exists>sys'. Save sys c configPath = Inr sys' \<and> Load sys' foldEq configPath = Inr c"
proof -
  from assms(2) obtain v where v: "MarshalIndent (FormatFloat sys) c = Inr v"
    using MarshalIndent_finite by blast
  let ?sys' = "sys\<lparr>files := (files sys)(configPath \<mapsto> JSONText v)\<rparr>"
  have "Save sys c configPath = Inr ?sys'"
    using assms(6,7) v by (simp add: Save_def)
  moreover have "Load ?sys' foldEq configPath = Inr c"
    using assms(1,5,8) Unmarshal_MarshalIndent[OF v assms(3,4), of foldEq zeroConfig]
    by (simp add: Load_def)
  ultimately show ?thesis by blast
qed

theorem Save_Load_roundtrip_witness:
  "Validate DefaultConfig = None \<and> finiteConfig DefaultConfig \<and> validStrings DefaultConfig \<and>
   floatsReadBack plainSystem DefaultConfig \<and> gostr ''config.json'' \<noteq> [] \<and>
   \<not> MkdirAllFails plainSystem (Dir plainSystem (gostr ''config.json'')) \<and>
   \<not> WriteFileFails plainSystem (gostr ''config.json'') \<and>
   \<not> ReadFileFails plainSystem (gostr ''config.json'') \<and>
   (\<exists>sys'. Save plainSystem DefaultConfig (gostr ''config.json'') = Inr sys' \<and>
           Load sys' asciiEqualFold (gostr ''config.json'') = Inr DefaultConfig)"
proof -
  have v: "Validate DefaultConfig = None"
    by (simp add: Validate_def DefaultConfig_def defaultTemplate_def gostr_def)
  have f: "finiteConfig DefaultConfig"
    by (simp add: finiteConfig_def DefaultConfig_def)
  have u: "validStrings DefaultConfig"
    by (simp add: validStrings_def validUTF8_def isScalar_def DefaultConfig_def
        defaultTemplate_def gostr_def)
  have b: "floatsReadBack plainSystem DefaultConfig"
    by (simp add: floatsReadBack_def DefaultConfig_def plainSystem_def formatExact_def
        parseExact_def)
  have p: "gostr ''config.json'' \<noteq> []"
    by (simp add: gostr_def)
  have m: "\<not> MkdirAllFails plainSystem (Dir plainSystem (gostr ''config.json''))"
    and w: "\<not> WriteFileFails plainSystem (gostr ''config.json'')"
    and r: "\<not> ReadFileFails plainSystem (gostr ''config.json'')"
    by (simp_all add: plainSystem_def)
  from v f u b p m w r Save_Load_roundtrip[OF v f u b p m w r, of asciiEqualFold]
  show ?thesis by blast
qed

text \<open>
  A font size of positive infinity passes \<^verbatim>\<open>Validate\<close>, and \<^verbatim>\<open>Save\<close> fails on it: JSON
  has no such number. An executor name that ends in the byte \<^verbatim>\<open>0xFF\<close> passes
  \<^verbatim>\<open>Validate\<close> too; it is saved and loaded without error, and comes back ending in
  \<^verbatim>\<open>U+FFFD\<close>.
\<close>

theorem Save_Load_not_identity:
  "Validate (DefaultConfig\<lparr>PDF := (PDF DefaultConfig)\<lparr>FontSize := PosInf\<rparr>\<rparr>) = None \<and>
   Save plainSystem (DefaultConfig\<lparr>PDF := (PDF DefaultConfig)\<lparr>FontSize := PosInf\<rparr>\<rparr>)
     (gostr ''config.json'') = Inl (MarshalFailed UnsupportedValue) \<and>
   Validate (DefaultConfig\<lparr>Header := (Header DefaultConfig)\<lparr>ExecutorName :=
       gostr ''Jan'' @ [undecodable 255]\<rparr>\<rparr>) = None \<and>
   (\<exists>sys'. Save plainSystem (DefaultConfig\<lparr>Header := (Header DefaultConfig)\<lparr>ExecutorName :=
              gostr ''Jan'' @ [undecodable 255]\<rparr>\<rparr>) (gostr ''config.json'') = Inr sys' \<and>
           Load sys' asciiEqualFold (gostr ''config.json'') =
             Inr (DefaultConfig\<lparr>Header := (Header DefaultConfig)\<lparr>ExecutorName :=
               gostr ''Jan'' @ [65533]\<rparr>\<rparr>)) \<and>
   DefaultConfig\<lparr>Header := (Header DefaultConfig)\<lparr>ExecutorName := gostr ''Jan'' @ [65533]\<rparr>\<rparr> \<noteq>
   DefaultConfig\<lparr>Header := (Header DefaultConfig)\<lparr>ExecutorName :=
     gostr ''Jan'' @ [undecodable 255]\<rparr>\<rparr>"
proof (intro conjI)
  show "Validate (DefaultConfig\<lparr>PDF := (PDF DefaultConfig)\<lparr>FontSize := PosInf\<rparr>\<rparr>) = None"
    by (simp add: Validate_def DefaultConfig_def defaultTemplate_def gostr_def)
  show "Save plainSystem (DefaultConfig\<lparr>PDF := (PDF DefaultConfig)\<lparr>FontSize := PosInf\<rparr>\<rparr>)
     (gostr ''config.json'') = Inl (MarshalFailed UnsupportedValue)"
    by (simp add: DefaultConfig_def Save_def plainSystem_def MarshalIndent_def marshalPDF_def
        marshalFloat64_def andThen_def)
  show "Validate (DefaultConfig\<lparr>Header := (Header DefaultConfig)\<lparr>ExecutorName :=
       gostr ''Jan'' @ [undecodable 255]\<rparr>\<rparr>) = None"
    by (simp add: Validate_def DefaultConfig_def defaultTemplate_def gostr_def)
  show "\<exists>sys'. Save plainSystem (DefaultConfig\<lparr>Header := (Header DefaultConfig)\<lparr>ExecutorName :=
              gostr ''Jan'' @ [undecodable 255]\<rparr>\<rparr>) (gostr ''config.json'') = Inr sys' \<and>
           Load sys' asciiEqualFold (gostr ''config.json'') =
             Inr (DefaultConfig\<lparr>Header := (Header DefaultConfig)\<lparr>ExecutorName :=
               gostr ''Jan'' @ [65533]\<rparr>\<rparr>)"
    by (simp add: Save_def Load_def plainSystem_def MarshalIndent_def marshalPDF_def
        marshalFloat64_def marshalHeader_def marshalColor_def formatExact_def parseExact_def
        Unmarshal_def decodeConfigMember_def decodeHeader_def decodeHeaderMember_def
        decodePDF_def decodePDFMember_def decodeString_def decodeFloat64_def decodeColor_def
        decodeElem_def decodeInt_def andThen_def eval_tags toValidUTF8_def isScalar_def
        undecodable_def zeroConfig_def Validate_def DefaultConfig_def defaultTemplate_def)
  show "DefaultConfig\<lparr>Header := (Header DefaultConfig)\<lparr>ExecutorName := gostr ''Jan'' @ [65533]\<rparr>\<rparr> \<noteq>
   DefaultConfig\<lparr>Header := (Header DefaultConfig)\<lparr>ExecutorName :=
     gostr ''Jan'' @ [undecodable 255]\<rparr>\<rparr>"
    by (simp add: DefaultConfig_def undecodable_def)
qed

section \<open>The rendered document\<close>

lemmas eval_dates =
  formatDateUTC_def formatDateTimeUTC_def formatCivil_def formatClock_def civil_def
  civilOfEra_def civilOfYear_def civilOfMonth_def monthOf_def dayOfYear_def yearOfEra_def
  dayOfEra_def pad2_def pad4_def decimal.simps Hour_def jan01_def jan31_def

lemmas eval_gen =
  generateHeader_def headerTemplateData_def reportOf_def DefaultConfig_def plainSystem_def
  fieldTemplates_def parseAction_def textNodes_def executeNode_def isFieldChar_def
  isActionSpace_def andThen_def fontName_def newline_def gostr_def

lemma formatUTC_examples:
  "formatDateUTC jan01 = gostr ''2024-01-01'' \<and> formatDateUTC jan31 = gostr ''2024-01-31'' \<and>
   formatDateTimeUTC (1706783400 * 1000000000) = gostr ''2024-02-01 10:30:00''"
  by (simp add: eval_dates gostr_def)

text \<open>
  Claim C4 (as amended). Given an empty commit list, \<^verbatim>\<open>generateCommits\<close> adds to the
  document the italic placeholder line and nothing else, and returns no error: it
  returns before the table and before the summary block, so no commit count is printed.
\<close>

theorem generateCommits_empty:
  assumes "Commits data = []"
  shows "generateCommits sys data pdf =
         Inr (pdf @ [SetFont fontName (gostr ''I'') 11, Cell 0 6 noCommitsText])"
  using assms by (simp add: generateCommits_def)

theorem generateCommits_empty_witness:
  "Commits (reportOf defaultTemplate []) = [] \<and>
   generateCommits plainSystem (reportOf defaultTemplate []) [AddPage] =
     Inr ([AddPage] @ [SetFont fontName (gostr ''I'') 11, Cell 0 6 noCommitsText])"
proof -
  have e: "Commits (reportOf defaultTemplate []) = []"
    by (simp add: reportOf_def)
  from e generateCommits_empty[OF e, of plainSystem "[AddPage]"] show ?thesis
    by (rule conjI)
qed

text \<open>
  For an empty commit list the document holds the placeholder and no line with a total
  of 0.
\<close>

theorem generateCommits_empty_no_summary:
  "generateCommits plainSystem (reportOf defaultTemplate []) [] =
     Inr [SetFont fontName (gostr ''I'') 11, Cell 0 6 noCommitsText] \<and>
   Cell 0 6 (totalText 0) \<notin> set [SetFont fontName (gostr ''I'') 11, Cell 0 6 noCommitsText]"
  by (simp add: generateCommits_def reportOf_def noCommitsText_def totalText_def gostr_def
      decimal.simps)

lemma generateHeader_title_example:
  "generateHeader fieldTemplates plainSystem
     (reportOf (gostr ''{{.date_from}}\<newline>{{.branch_name}}\<newline>repo {{.repository_name}}'') []) [] =
   Inr [SetFont fontName [] 11,
        Cell 0 10 (gostr ''2024-01-01''),
        Ln 12,
        SetFont fontName (gostr ''B'') 16,
        Cell 0 8 (gostr ''{{.branch_name}}''),
        Ln 15,
        SetFont fontName [] 11,
        MultiCell 0 7 (gostr ''repo my-project'') [] (gostr ''L'') False,
        Ln 5]"
  by (simp add: eval_gen eval_dates)

text \<open>
  Claim C5 (as amended). When \<^verbatim>\<open>generateHeader\<close> succeeds, the first line of the
  template and the remainder after the second line have been parsed and executed against
  the placeholder data and their expansions are placed on the page, while the second
  line, the title, is placed on the page as it stands in the template, unexpanded.
\<close>

theorem generateHeader_title_verbatim:
  assumes "generateHeader lib sys data pdf = Inr pdf'"
  shows "\<exists>dateTmpl dateText restTmpl restText.
     Parse lib (Split (Template (Header (Config data))) newline ! 0) = Inr dateTmpl \<and>
     Execute lib dateTmpl (headerTemplateData sys data) = Inr dateText \<and>
     Parse lib (Join (drop 2 (Split (Template (Header (Config data))) newline)) [newline]) =
       Inr restTmpl \<and>
     Execute lib restTmpl (headerTemplateData sys data) = Inr restText \<and>
     pdf' = pdf @
       [SetFont fontName [] 11,
        Cell 0 10 dateText,
        Ln 12,
        SetFont fontName (gostr ''B'') 16,
        Cell 0 8 (Split (Template (Header (Config data))) newline ! 1),
        Ln 15,
        SetFont fontName [] 11,
        MultiCell 0 7 restText [] (gostr ''L'') False,
        Ln 5]"
  using assms
  by (auto simp: generateHeader_def Let_def split: if_splits sum.splits)

theorem generateHeader_title_verbatim_witness:
  "generateHeader fieldTemplates plainSystem
     (reportOf (gostr ''{{.date_from}}\<newline>{{.branch_name}}\<newline>repo {{.repository_name}}'') []) [] =
   Inr [SetFont fontName [] 11,
        Cell 0 10 (gostr ''2024-01-01''),
        Ln 12,
        SetFont fontName (gostr ''B'') 16,
        Cell 0 8 (gostr ''{{.branch_name}}''),
        Ln 15,
        SetFont fontName [] 11,
        MultiCell 0 7 (gostr ''repo my-project'') [] (gostr ''L'') False,
        Ln 5] \<and>
   Split (Template (Header (Config
     (reportOf (gostr ''{{.date_from}}\<newline>{{.branch_name}}\<newline>repo {{.repository_name}}'') []))))
     newline ! 1 = gostr ''{{.branch_name}}'' \<and>
   (\<exists>dateTmpl dateText restTmpl restText.
     Parse fieldTemplates (Split (Template (Header (Config
       (reportOf (gostr ''{{.date_from}}\<newline>{{.branch_name}}\<newline>repo {{.repository_name}}'') []))))
       newline ! 0) = Inr dateTmpl \<and>
     Execute fieldTemplates dateTmpl (headerTemplateData plainSystem
       (reportOf (gostr ''{{.date_from}}\<newline>{{.branch_name}}\<newline>repo {{.repository_name}}'') [])) =
       Inr dateText \<and>
     Parse fieldTemplates (Join (drop 2 (Split (Template (Header (Config
       (reportOf (gostr ''{{.date_from}}\<newline>{{.branch_name}}\<newline>repo {{.repository_name}}'') []))))
       newline)) [newline]) = Inr restTmpl \<and>
     Execute fieldTemplates restTmpl (headerTemplateData plainSystem
       (reportOf (gostr ''{{.date_from}}\<newline>{{.branch_name}}\<newline>repo {{.repository_name}}'') [])) =
       Inr restText \<and>
     [SetFont fontName [] 11,
        Cell 0 10 (gostr ''2024-01-01''),
        Ln 12,
        SetFont fontName (gostr ''B'') 16,
        Cell 0 8 (gostr ''{{.branch_name}}''),
        Ln 15,
        SetFont fontName [] 11,
        MultiCell 0 7 (gostr ''repo my-project'') [] (gostr ''L'') False,
        Ln 5] = [] @
       [SetFont fontName [] 11,
        Cell 0 10 dateText,
        Ln 12,
        SetFont fontName (gostr ''B'') 16,
        Cell 0 8 (Split (Template (Header (Config
          (reportOf (gostr ''{{.date_from}}\<newline>{{.branch_name}}\<newline>repo {{.repository_name}}'') []))))
          newline ! 1),
        Ln 15,
        SetFont fontName [] 11,
        MultiCell 0 7 restText [] (gostr ''L'') False,
        Ln 5])"
proof -
  note e = generateHeader_title_example
  have t: "Split (Template (Header (Config
     (reportOf (gostr ''{{.date_from}}\<newline>{{.branch_name}}\<newline>repo {{.repository_name}}'') []))))
     newline ! 1 = gostr ''{{.branch_name}}''"
    by (simp add: reportOf_def gostr_def newline_def)
  from e t generateHeader_title_verbatim[OF e] show ?thesis
    by (intro conjI)
qed

text \<open>
  A title line that holds a placeholder: expanded, the line would read \<^verbatim>\<open>main\<close>; the
  page gets the placeholder itself.
\<close>

theorem generateHeader_title_not_expanded:
  "generateHeader fieldTemplates plainSystem
     (reportOf (gostr ''{{.date_from}}\<newline>{{.branch_name}}\<newline>repo {{.repository_name}}'') []) [] =
   Inr [SetFont fontName [] 11,
        Cell 0 10 (gostr ''2024-01-01''),
        Ln 12,
        SetFont fontName (gostr ''B'') 16,
        Cell 0 8 (gostr ''{{.branch_name}}''),
        Ln 15,
        SetFont fontName [] 11,
        MultiCell 0 7 (gostr ''repo my-project'') [] (gostr ''L'') False,
        Ln 5] \<and>
   andThen (Parse fieldTemplates (gostr ''{{.branch_name}}''))
     (\<lambda>t. Execute fieldTemplates t (headerTemplateData plainSystem
        (reportOf (gostr ''{{.date_from}}\<newline>{{.branch_name}}\<newline>repo {{.repository_name}}'') []))) =
   Inr (gostr ''main'')"
proof (rule conjI)
  show "andThen (Parse fieldTemplates (gostr ''{{.branch_name}}''))
     (\<lambda>t. Execute fieldTemplates t (headerTemplateData plainSystem
        (reportOf (gostr ''{{.date_from}}\<newline>{{.branch_name}}\<newline>repo {{.repository_name}}'') []))) =
   Inr (gostr ''main'')"
    by (simp add: eval_gen)
qed (rule generateHeader_title_example)

text \<open>
  Claim C6 (the code departs from it). The data is a \<^verbatim>\<open>map[string]interface{}\<close>, so under
  \<^verbatim>\<open>missingkey=zero\<close> a placeholder whose key is not in the map is rendered as
  \<^verbatim>\<open><no value>\<close>, not as the empty string; no error is returned. Here the first line of
  the template uses \<^verbatim>\<open>current_date\<close>, the placeholder the README names.
\<close>

theorem generateHeader_missing_key_no_value:
  "generateHeader fieldTemplates plainSystem
     (reportOf (gostr ''Warsaw, {{.current_date}}\<newline>Report\<newline>By {{.executor_name}}'') []) [] =
   Inr [SetFont fontName [] 11,
        Cell 0 10 (gostr ''Warsaw, <no value>''),
        Ln 12,
        SetFont fontName (gostr ''B'') 16,
        Cell 0 8 (gostr ''Report''),
        Ln 15,
        SetFont fontName [] 11,
        MultiCell 0 7 (gostr ''By Some Programmer'') [] (gostr ''L'') False,
        Ln 5]"
  by (simp add: eval_gen eval_dates)

lemma headerTemplateData_ignores:
  "headerTemplateData sys
     (data\<lparr>Config := (Config data)\<lparr>PDF := p, Header := (Header (Config data))\<lparr>Location := l\<rparr>\<rparr>\<rparr>) =
   headerTemplateData sys data"
  by (simp add: headerTemplateData_def)

lemma Template_ignores:
  "Template (Header (Config
     (data\<lparr>Config := (Config data)\<lparr>PDF := p, Header := (Header (Config data))\<lparr>Location := l\<rparr>\<rparr>\<rparr>))) =
   Template (Header (Config data))"
  by simp

lemma generateHeader_ignores:
  "generateHeader lib sys
     (data\<lparr>Config := (Config data)\<lparr>PDF := p, Header := (Header (Config data))\<lparr>Location := l\<rparr>\<rparr>\<rparr>) pdf =
   generateHeader lib sys data pdf"
  unfolding generateHeader_def headerTemplateData_ignores Template_ignores ..

lemma generateCommits_ignores:
  "generateCommits sys (data\<lparr>Config := c\<rparr>) pdf = generateCommits sys data pdf"
  by (simp add: generateCommits_def)

text \<open>
  Claim C10. \<^verbatim>\<open>Generate\<close> gives the same result (the same error, or the same document
  written to the same path) when the PDF styling of the configuration and the location
  of the header are replaced by any other values: the generator reads neither.
\<close>

theorem Generate_ignores_PDF_and_Location:
  "Generate lib sys
     (data\<lparr>Config := (Config data)\<lparr>PDF := p, Header := (Header (Config data))\<lparr>Location := l\<rparr>\<rparr>\<rparr>)
     outputPath =
   Generate lib sys data outputPath"
  unfolding Generate_def generateHeader_ignores generateCommits_ignores ..

end
